theory Spec2Isabelle
  imports Main "HOL-Library.Sublist"
begin

section \<open>Errors (src/errors.ts)\<close>

text \<open>
  The three error classes of the package. \<open>L402BudgetExceededError\<close> and
  \<open>L402PaymentFailedError\<close> extend \<open>L402Error\<close>; each carries its message.
  \<open>Rejected\<close> stands for a value thrown by a collaborator (the platform's fetch, the
  SDK, a pricing function); the package never wraps one, and the client passes it on
  unchanged.
\<close>

datatype error =
    L402Error string
  | L402BudgetExceededError string
  | L402PaymentFailedError string
  | Rejected string

section \<open>Numbers in template literals\<close>

text \<open>
  Amounts are satoshi counts: integers, far below the range where a JavaScript number
  stops being exact. \<open>show_int\<close> is the decimal text a template literal produces for
  such a number.
\<close>

fun show_nat :: "nat \<Rightarrow> string" where
  "show_nat n =
     (if n < 10 then [''0123456789'' ! n]
      else show_nat (n div 10) @ [''0123456789'' ! (n mod 10)])"

definition show_int :: "int \<Rightarrow> string" where
  "show_int i = (if i < 0 then ''-'' @ show_nat (nat (- i)) else show_nat (nat i))"

section \<open>Header codec (server/headers.ts)\<close>

text \<open>\<open>s.startsWith(p)\<close>.\<close>

definition startsWith :: "string \<Rightarrow> string \<Rightarrow> bool" where
  "startsWith s p = (take (length p) s = p)"

text \<open>\<open>s.lastIndexOf(c)\<close> for a one-character needle; \<open>None\<close> is JavaScript's \<open>-1\<close>.\<close>

fun lastIndexOf :: "string \<Rightarrow> char \<Rightarrow> nat option" where
  "lastIndexOf [] c = None"
| "lastIndexOf (x # xs) c =
     (case lastIndexOf xs c of
        Some i \<Rightarrow> Some (Suc i)
      | None \<Rightarrow> if x = c then Some 0 else None)"

text \<open>
  \<open>parseAuthorization\<close>: the result \<open>{ macaroon, preimage }\<close> is the pair
  \<open>(macaroon, preimage)\<close>, \<open>null\<close> is \<open>None\<close>.
\<close>

definition parseAuthorization :: "string \<Rightarrow> (string \<times> string) option" where
  "parseAuthorization header =
     (if \<not> startsWith header ''L402 '' then None
      else
        let token = drop 5 header in
        case lastIndexOf token (CHR '':'') of
          None \<Rightarrow> None
        | Some colonIndex \<Rightarrow> Some (take colonIndex token, drop (colonIndex + 1) token))"

text \<open>
  The two regular expressions of \<open>parseChallenge\<close> have the shape
  \<open>/key="([^"]+)"/\<close>. \<open>match_here key s\<close> is an attempt to match at the start of
  \<open>s\<close>: the literal \<open>key="\<close>, then the longest run of characters other than the
  double quote, which must be non-empty and followed by a double quote (a shorter run
  is followed by a character of the run, never by the quote, so backtracking finds
  nothing more). \<open>match_attr key s\<close> is \<open>s.match(...)\<close>: the leftmost position where
  the attempt succeeds, and the result is capture group 1.
\<close>

definition match_here :: "string \<Rightarrow> string \<Rightarrow> string option" where
  \<open>match_here key s =
     (let lit = key @ ''="'' in
      if startsWith s lit then
        let rest = drop (length lit) s;
            run = takeWhile (\<lambda>c. c \<noteq> CHR ''"'') rest;
            after = dropWhile (\<lambda>c. c \<noteq> CHR ''"'') rest
        in if run \<noteq> [] \<and> after \<noteq> [] then Some run else None
      else None)\<close>

fun match_attr :: "string \<Rightarrow> string \<Rightarrow> string option" where
  "match_attr key [] = match_here key []"
| "match_attr key (c # cs) =
     (case match_here key (c # cs) of
        Some v \<Rightarrow> Some v
      | None \<Rightarrow> match_attr key cs)"

text \<open>\<open>parseChallenge\<close>: the result \<open>{ macaroon, invoice }\<close> is the pair \<open>(macaroon, invoice)\<close>.\<close>

definition parseChallenge :: "string \<Rightarrow> (string \<times> string) option" where
  "parseChallenge header =
     (if \<not> startsWith header ''L402 '' then None
      else
        case (match_attr ''macaroon'' header, match_attr ''invoice'' header) of
          (Some macaroonMatch, Some invoiceMatch) \<Rightarrow> Some (macaroonMatch, invoiceMatch)
        | _ \<Rightarrow> None)"

definition formatAuthorization :: "string \<Rightarrow> string \<Rightarrow> string" where
  "formatAuthorization macaroon preimage = ''L402 '' @ macaroon @ '':'' @ preimage"

definition formatChallenge :: "string \<Rightarrow> string \<Rightarrow> string" where
  \<open>formatChallenge macaroon invoice =
     ''L402 macaroon="'' @ macaroon @ ''", invoice="'' @ invoice @ ''"''\<close>

section \<open>Budget tracker (client/budget.ts)\<close>

text \<open>
  \<open>Date.now()\<close> is read from a clock \<open>clk :: nat \<Rightarrow> int\<close>: \<open>clk n\<close> is what the
  \<open>n\<close>-th read of the clock returns (milliseconds). Code that reads the clock takes the
  number of reads made so far and returns it advanced, so two reads in one method may
  differ, as they may in the program.
\<close>

datatype budgetPeriod = Hour | Day | Week | Month

fun PERIOD_MS :: "budgetPeriod \<Rightarrow> int" where
  "PERIOD_MS Hour = 60 * 60 * 1000"
| "PERIOD_MS Day = 24 * 60 * 60 * 1000"
| "PERIOD_MS Week = 7 * 24 * 60 * 60 * 1000"
| "PERIOD_MS Month = 30 * 24 * 60 * 60 * 1000"

record Budget =
  spent :: int
  periodStart :: int
  totalSats :: "int option"
  periodMs :: "int option"

text \<open>
  The constructor, given \<open>options.budgetSats\<close> and \<open>options.budgetPeriod\<close>; the field
  initialiser of \<open>periodStart\<close> reads the clock.
\<close>

definition new_Budget ::
  "(nat \<Rightarrow> int) \<Rightarrow> int option \<Rightarrow> budgetPeriod option \<Rightarrow> nat \<Rightarrow> Budget \<times> nat" where
  "new_Budget clk budgetSats_opt budgetPeriod_opt t =
     (\<lparr>spent = 0, periodStart = clk t, totalSats = budgetSats_opt,
       periodMs = (case budgetPeriod_opt of None \<Rightarrow> None | Some p \<Rightarrow> Some (PERIOD_MS p))\<rparr>,
      t + 1)"

text \<open>
  \<open>maybeReset\<close>: \<open>this.periodMs && ...\<close> reads the clock only when \<open>periodMs\<close> is
  defined and not zero; the assignment to \<open>periodStart\<close> reads it a second time.
\<close>

definition maybeReset :: "(nat \<Rightarrow> int) \<Rightarrow> Budget \<times> nat \<Rightarrow> Budget \<times> nat" where
  "maybeReset clk bt =
     (case bt of (b, t) \<Rightarrow>
        (case periodMs b of
           None \<Rightarrow> (b, t)
         | Some p \<Rightarrow>
             if p = 0 then (b, t)
             else if clk t - periodStart b \<ge> p
               then (b\<lparr>spent := 0, periodStart := clk (t + 1)\<rparr>, t + 2)
               else (b, t + 1)))"

definition budget_message :: "int \<Rightarrow> int \<Rightarrow> int \<Rightarrow> string" where
  "budget_message price spent_now limit =
     ''Payment of '' @ show_int price @ '' sats would exceed budget ('' @
     show_int spent_now @ ''/'' @ show_int limit @ '' sats spent)''"

text \<open>
  \<open>check\<close>: the result is \<open>Inl\<close> of the error when the method throws; the budget and
  the number of clock reads are returned in either case.
\<close>

definition check :: "(nat \<Rightarrow> int) \<Rightarrow> int \<Rightarrow> Budget \<times> nat \<Rightarrow> (error + unit) \<times> Budget \<times> nat" where
  "check clk price bt =
     (case totalSats (fst bt) of
        None \<Rightarrow> (Inr (), bt)
      | Some limit \<Rightarrow>
          let bt' = maybeReset clk bt in
          if spent (fst bt') + price > limit
          then (Inl (L402BudgetExceededError (budget_message price (spent (fst bt')) limit)), bt')
          else (Inr (), bt'))"

text \<open>
  The method \<open>record\<close>; its name is a keyword here, so the model calls it
  \<open>record_payment\<close>.
\<close>

definition record_payment :: "(nat \<Rightarrow> int) \<Rightarrow> int \<Rightarrow> Budget \<times> nat \<Rightarrow> Budget \<times> nat" where
  "record_payment clk price bt =
     (let bt' = maybeReset clk bt
      in ((fst bt')\<lparr>spent := spent (fst bt') + price\<rparr>, snd bt'))"

section \<open>Token store (client/store.ts, types.ts)\<close>

text \<open>A cached credential. \<open>paidAt\<close> and \<open>expiresAt\<close> are instants in milliseconds.\<close>

record L402Token =
  macaroon :: string
  preimage :: string
  authorization :: string
  paidAt :: int
  expiresAt :: "int option"

text \<open>
  \<open>normalizeUrl\<close> relies on the platform's \<open>URL\<close> class, which is no part of the
  package. It is the parameter \<open>href\<close>: \<open>href url\<close> is the text of \<open>new URL(url)\<close>
  after \<open>search\<close> and \<open>hash\<close> have been cleared, and \<open>None\<close> when the constructor
  throws. The replacement of \<open>/\/+$/\<close> strips the trailing slashes.
\<close>

definition normalizeUrl :: "(string \<Rightarrow> string option) \<Rightarrow> string \<Rightarrow> string" where
  "normalizeUrl href url =
     (case href url of
        Some u \<Rightarrow> rev (dropWhile (\<lambda>c. c = CHR ''/'') (rev u))
      | None \<Rightarrow> url)"

text \<open>
  The \<open>TokenStore\<close> interface has two implementations in the package, \<open>MemoryStore\<close>
  (a \<open>Map\<close> from normalised URL to token) and \<open>NoStore\<close>. A store supplied by the
  caller is an object of the caller's code: \<open>CustomStore\<close> carries its three methods
  as functions on a state of the caller's choice, taken not to reject.
\<close>

record 's TokenStoreMethods =
  get_method :: "string \<Rightarrow> 's \<Rightarrow> L402Token option"
  set_method :: "string \<Rightarrow> L402Token \<Rightarrow> 's \<Rightarrow> 's"
  delete_method :: "string \<Rightarrow> 's \<Rightarrow> 's"

datatype 's TokenStore =
    MemoryStore "string \<rightharpoonup> L402Token"
  | NoStore
  | CustomStore "'s TokenStoreMethods" 's

fun store_get :: "(string \<Rightarrow> string option) \<Rightarrow> 's TokenStore \<Rightarrow> string \<Rightarrow> L402Token option" where
  "store_get href (MemoryStore tokens) url = tokens (normalizeUrl href url)"
| "store_get href NoStore url = None"
| "store_get href (CustomStore ms st) url = get_method ms url st"

fun store_set ::
  "(string \<Rightarrow> string option) \<Rightarrow> 's TokenStore \<Rightarrow> string \<Rightarrow> L402Token \<Rightarrow> 's TokenStore" where
  "store_set href (MemoryStore tokens) url token =
     MemoryStore (tokens(normalizeUrl href url \<mapsto> token))"
| "store_set href NoStore url token = NoStore"
| "store_set href (CustomStore ms st) url token = CustomStore ms (set_method ms url token st)"

fun store_delete :: "(string \<Rightarrow> string option) \<Rightarrow> 's TokenStore \<Rightarrow> string \<Rightarrow> 's TokenStore" where
  "store_delete href (MemoryStore tokens) url =
     MemoryStore (tokens(normalizeUrl href url := None))"
| "store_delete href NoStore url = NoStore"
| "store_delete href (CustomStore ms st) url = CustomStore ms (delete_method ms url st)"

text \<open>The \<open>store\<close> option: \<open>"memory"\<close>, \<open>"none"\<close> or a store object; \<open>None\<close> when omitted.\<close>

datatype 's store_option = Memory | NoCache | StoreObject "'s TokenStore"

fun resolveStore :: "'s store_option option \<Rightarrow> 's TokenStore" where
  "resolveStore None = MemoryStore Map.empty"
| "resolveStore (Some Memory) = MemoryStore Map.empty"
| "resolveStore (Some NoCache) = NoStore"
| "resolveStore (Some (StoreObject st)) = st"

section \<open>The client and its collaborators (client/fetch.ts)\<close>

text \<open>
  \<open>RequestInit\<close> as far as the client touches it. Header names are case-insensitive in
  the platform's \<open>Headers\<close>; they are kept in lower case here. \<open>Headers.set\<close>
  replaces whatever value the name had.
\<close>

record RequestInit =
  request_method :: "string option"
  headers :: "(string \<times> string) list"
  payload :: "string option"

definition headers_set :: "string \<Rightarrow> string \<Rightarrow> (string \<times> string) list \<Rightarrow> (string \<times> string) list" where
  "headers_set name v hs = filter (\<lambda>kv. fst kv \<noteq> name) hs @ [(name, v)]"

text \<open>
  \<open>new Headers(init?.headers)\<close>, \<open>headers.set("Authorization", v)\<close> and
  \<open>{ ...init, headers }\<close>: the second argument of an authorised request.
\<close>

definition with_authorization :: "RequestInit option \<Rightarrow> string \<Rightarrow> RequestInit option" where
  "with_authorization init v =
     (case init of
        None \<Rightarrow> Some \<lparr>request_method = None, headers = headers_set ''authorization'' v [], payload = None\<rparr>
      | Some i \<Rightarrow> Some (i\<lparr>headers := headers_set ''authorization'' v (headers i)\<rparr>))"

text \<open>\<open>Headers.get\<close>, and the header of that name in the second argument of a request.\<close>

definition headers_get :: "string \<Rightarrow> (string \<times> string) list \<Rightarrow> string option" where
  "headers_get name hs = map_of hs name"

definition request_header :: "string \<Rightarrow> RequestInit option \<Rightarrow> string option" where
  "request_header name init = (case init of None \<Rightarrow> None | Some i \<Rightarrow> headers_get name (headers i))"

text \<open>
  What the client reads of a response: the status, \<open>headers.get("www-authenticate")\<close>,
  and of the JSON body the two fields \<open>price\<close> and \<open>expiresAt\<close>. \<open>json = None\<close> is a
  body for which \<open>res.json()\<close> rejects (the \<open>catch\<close> turns it into \<open>null\<close>) or that is
  \<open>null\<close>; \<open>price = None\<close> is a missing or \<open>null\<close> price; \<open>body_expiresAt\<close> is the
  instant \<open>new Date(body.expiresAt)\<close> denotes, \<open>None\<close> when the field is missing or
  falsy. \<open>content\<close> is the rest of the response, which the client passes through.
\<close>

record PaymentRequiredBody =
  price :: "int option"
  body_expiresAt :: "int option"

record Response =
  status :: int
  www_authenticate :: "string option"
  json :: "PaymentRequiredBody option"
  content :: string

text \<open>The result of \<open>ln.l402.pay\<close>, as far as the client reads it.\<close>

record L402Payment =
  pay_status :: string
  pay_authorization :: "string option"
  pay_preimage :: "string option"
  pay_amount :: "int option"

text \<open>
  The calls to collaborators, in the order they are made, each with what it returned
  (\<open>Inl\<close>: the promise rejected).
\<close>

datatype call =
    Fetch string "RequestInit option" "error + Response"
  | Pay string "error + L402Payment"

fun is_Pay :: "call \<Rightarrow> bool" where
  "is_Pay (Pay _ _) = True"
| "is_Pay (Fetch _ _ _) = False"

text \<open>
  The outside of the client: the clock, the URL parser, and what \<open>globalThis.fetch\<close>
  and \<open>ln.l402.pay\<close> answer. An answer may depend on the arguments of the call and on
  how many calls to collaborators came before it.
\<close>

record env =
  now :: "nat \<Rightarrow> int"
  href :: "string \<Rightarrow> string option"
  fetch_reply :: "nat \<Rightarrow> string \<Rightarrow> RequestInit option \<Rightarrow> error + Response"
  pay_reply :: "nat \<Rightarrow> string \<Rightarrow> error + L402Payment"

record world =
  clock_reads :: nat
  calls :: "call list"

definition global_fetch ::
  "env \<Rightarrow> string \<Rightarrow> RequestInit option \<Rightarrow> world \<Rightarrow> (error + Response) \<times> world" where
  "global_fetch e url init w =
     (let r = fetch_reply e (length (calls w)) url init
      in (r, w\<lparr>calls := calls w @ [Fetch url init r]\<rparr>))"

definition l402_pay :: "env \<Rightarrow> string \<Rightarrow> world \<Rightarrow> (error + L402Payment) \<times> world" where
  "l402_pay e wwwAuthenticate w =
     (let r = pay_reply e (length (calls w)) wwwAuthenticate
      in (r, w\<lparr>calls := calls w @ [Pay wwwAuthenticate r]\<rparr>))"

text \<open>The variables the closure of \<open>client\<close> holds, and its options.\<close>

record 's L402Client =
  store :: "'s TokenStore"
  budget :: Budget
  maxPrice :: int

record 's L402ClientOptions =
  opt_maxPrice :: "int option"
  opt_budgetSats :: "int option"
  opt_budgetPeriod :: "budgetPeriod option"
  opt_store :: "'s store_option option"

definition client :: "env \<Rightarrow> 's L402ClientOptions \<Rightarrow> world \<Rightarrow> 's L402Client \<times> world" where
  "client e options w =
     (case new_Budget (now e) (opt_budgetSats options) (opt_budgetPeriod options) (clock_reads w) of
        (b, t) \<Rightarrow>
          (\<lparr>store = resolveStore (opt_store options),
            budget = b,
            maxPrice = (case opt_maxPrice options of None \<Rightarrow> 1000 | Some m \<Rightarrow> m)\<rparr>,
           w\<lparr>clock_reads := t\<rparr>))"

text \<open>
  Step 1 of \<open>l402Fetch\<close>, the token cache. The first component of the result is
  \<open>Some r\<close> when the function returns a response or throws within this step, and
  \<open>None\<close> when control falls through to step 2. \<open>cached.expiresAt && ...\<close> reads the
  clock only when the token has an \<open>expiresAt\<close>.
\<close>

definition check_token_cache ::
  "env \<Rightarrow> string \<Rightarrow> RequestInit option \<Rightarrow> 's L402Client \<times> world \<Rightarrow>
   (error + Response) option \<times> 's L402Client \<times> world" where
  "check_token_cache e url init cw =
     (case cw of (c, w) \<Rightarrow>
        (case store_get (href e) (store c) url of
           None \<Rightarrow> (None, c, w)
         | Some cached \<Rightarrow>
             (case (case expiresAt cached of
                      None \<Rightarrow> (False, w)
                    | Some t \<Rightarrow> (t \<le> now e (clock_reads w), w\<lparr>clock_reads := clock_reads w + 1\<rparr>)) of
                (isExpired, w1) \<Rightarrow>
                  if \<not> isExpired then
                    (case global_fetch e url (with_authorization init (authorization cached)) w1 of
                       (Inl err, w2) \<Rightarrow> (Some (Inl err), c, w2)
                     | (Inr res, w2) \<Rightarrow>
                         if status res \<noteq> 402 then (Some (Inr res), c, w2)
                         else (None, c\<lparr>store := store_delete (href e) (store c) url\<rparr>, w2))
                  else (None, c\<lparr>store := store_delete (href e) (store c) url\<rparr>, w1))))"

text \<open>\<open>body?.price ?? 0\<close>.\<close>

definition price_hint :: "Response \<Rightarrow> int" where
  "price_hint res =
     (case json res of
        None \<Rightarrow> 0
      | Some b \<Rightarrow> (case price b of None \<Rightarrow> 0 | Some p \<Rightarrow> p))"

definition maxPrice_message :: "int \<Rightarrow> int \<Rightarrow> string" where
  "maxPrice_message p m = ''Price '' @ show_int p @ '' sats exceeds maxPrice '' @ show_int m"

text \<open>
  The object passed to \<open>store.set\<close> in step 6, given the parsed challenge, the 402
  response, the payment, its authorization and the instant \<open>new Date()\<close> returns.
  \<open>??\<close> falls back on \<open>null\<close> and \<open>undefined\<close> only, so an empty macaroon or
  preimage is kept.
\<close>

definition new_token :: "string \<times> string \<Rightarrow> Response \<Rightarrow> L402Payment \<Rightarrow> string \<Rightarrow> int \<Rightarrow> L402Token" where
  "new_token challenge res payment a paid =
     (let parsed = parseAuthorization a in
      \<lparr>macaroon = (case parsed of Some (m, _) \<Rightarrow> m | None \<Rightarrow> fst challenge),
       preimage = (case pay_preimage payment of
                     Some pre \<Rightarrow> pre
                   | None \<Rightarrow> (case parsed of Some (_, pre) \<Rightarrow> pre | None \<Rightarrow> [])),
       authorization = a,
       paidAt = paid,
       expiresAt = (case json res of None \<Rightarrow> None | Some b \<Rightarrow> body_expiresAt b)\<rparr>)"

text \<open>
  Steps 5 to 7: pay, cache the token, record the amount, retry. \<open>!payment.authorization\<close>
  holds of \<open>null\<close> and of the empty string. The token's \<open>paidAt: new Date()\<close> reads
  the clock.
\<close>

definition pay_and_retry ::
  "env \<Rightarrow> string \<Rightarrow> RequestInit option \<Rightarrow> string \<Rightarrow> string \<times> string \<Rightarrow> Response \<Rightarrow> int \<Rightarrow>
   's L402Client \<times> world \<Rightarrow> (error + Response) \<times> 's L402Client \<times> world" where
  "pay_and_retry e url init wwwAuth challenge res p cw =
     (case cw of (c, w) \<Rightarrow>
        (case l402_pay e wwwAuth w of
           (Inl err, w1) \<Rightarrow> (Inl err, c, w1)
         | (Inr payment, w1) \<Rightarrow>
             if pay_status payment = ''failed''
             then (Inl (L402PaymentFailedError ''L402 payment failed''), c, w1)
             else
               (case pay_authorization payment of
                  None \<Rightarrow>
                    (Inl (L402PaymentFailedError ''Payment did not return authorization token''), c, w1)
                | Some a \<Rightarrow>
                    if a = []
                    then (Inl (L402PaymentFailedError ''Payment did not return authorization token''), c, w1)
                    else
                      let token = new_token challenge res payment a (now e (clock_reads w1));
                          w2 = w1\<lparr>clock_reads := clock_reads w1 + 1\<rparr>;
                          c2 = c\<lparr>store := store_set (href e) (store c) url token\<rparr>
                      in
                        (case record_payment (now e)
                                (case pay_amount payment of Some amount \<Rightarrow> amount | None \<Rightarrow> p)
                                (budget c2, clock_reads w2) of
                           (b3, t3) \<Rightarrow>
                             (case global_fetch e url (with_authorization init a) (w2\<lparr>clock_reads := t3\<rparr>) of
                                (Inl err, w4) \<Rightarrow> (Inl err, c2\<lparr>budget := b3\<rparr>, w4)
                              | (Inr retry, w4) \<Rightarrow>
                                  if status retry = 402
                                  then (Inl (L402PaymentFailedError
                                               ''Server returned 402 after successful payment''),
                                        c2\<lparr>budget := b3\<rparr>, w4)
                                  else (Inr retry, c2\<lparr>budget := b3\<rparr>, w4))))))"

text \<open>
  Steps 2 to 4: the plain request, the challenge and the two budget checks, then steps
  5 to 7. \<open>!wwwAuth\<close> holds of a missing header and of an empty one.
\<close>

definition request_and_pay ::
  "env \<Rightarrow> string \<Rightarrow> RequestInit option \<Rightarrow> 's L402Client \<times> world \<Rightarrow>
   (error + Response) \<times> 's L402Client \<times> world" where
  "request_and_pay e url init cw =
     (case cw of (c, w) \<Rightarrow>
        (case global_fetch e url init w of
           (Inl err, w1) \<Rightarrow> (Inl err, c, w1)
         | (Inr res, w1) \<Rightarrow>
             if status res \<noteq> 402 then (Inr res, c, w1)
             else
               (case www_authenticate res of
                  None \<Rightarrow> (Inl (L402Error ''402 response missing WWW-Authenticate header''), c, w1)
                | Some wwwAuth \<Rightarrow>
                    if wwwAuth = []
                    then (Inl (L402Error ''402 response missing WWW-Authenticate header''), c, w1)
                    else
                      (case parseChallenge wwwAuth of
                         None \<Rightarrow> (Inl (L402Error ''Could not parse L402 challenge''), c, w1)
                       | Some challenge \<Rightarrow>
                           let p = price_hint res in
                           if p > maxPrice c
                           then (Inl (L402BudgetExceededError (maxPrice_message p (maxPrice c))), c, w1)
                           else
                             (case check (now e) p (budget c, clock_reads w1) of
                                (Inl err, b2, t2) \<Rightarrow>
                                  (Inl err, c\<lparr>budget := b2\<rparr>, w1\<lparr>clock_reads := t2\<rparr>)
                              | (Inr _, b2, t2) \<Rightarrow>
                                  pay_and_retry e url init wwwAuth challenge res p
                                    (c\<lparr>budget := b2\<rparr>, w1\<lparr>clock_reads := t2\<rparr>))))))"

text \<open>
  \<open>l402Fetch\<close>, the later of the two revisions that client/fetch.ts holds (the one
  with \<open>jsonMethod\<close>): step 1, and steps 2 to 7 when step 1 falls through.
\<close>

definition l402Fetch ::
  "env \<Rightarrow> string \<Rightarrow> RequestInit option \<Rightarrow> 's L402Client \<times> world \<Rightarrow>
   (error + Response) \<times> 's L402Client \<times> world" where
  "l402Fetch e url init cw =
     (case check_token_cache e url init cw of
        (Some r, c1, w1) \<Rightarrow> (r, c1, w1)
      | (None, c1, w1) \<Rightarrow> request_and_pay e url init (c1, w1))"

subsection \<open>The earlier revision of \<open>l402Fetch\<close>\<close>

text \<open>
  client/fetch.ts also holds an earlier revision of \<open>l402Fetch\<close>. Step 1 is the
  same. It differs in three places: a price above \<open>maxPrice\<close> throws the base class
  \<open>L402Error\<close>; \<open>budget.record\<close> is given the price hint, whatever amount the payer
  reports; and the retry's response is returned as it is, also with status 402.
\<close>

definition pay_and_retry_earlier ::
  "env \<Rightarrow> string \<Rightarrow> RequestInit option \<Rightarrow> string \<Rightarrow> string \<times> string \<Rightarrow> Response \<Rightarrow> int \<Rightarrow>
   's L402Client \<times> world \<Rightarrow> (error + Response) \<times> 's L402Client \<times> world" where
  "pay_and_retry_earlier e url init wwwAuth challenge res p cw =
     (case cw of (c, w) \<Rightarrow>
        (case l402_pay e wwwAuth w of
           (Inl err, w1) \<Rightarrow> (Inl err, c, w1)
         | (Inr payment, w1) \<Rightarrow>
             if pay_status payment = ''failed''
             then (Inl (L402PaymentFailedError ''L402 payment failed''), c, w1)
             else
               (case pay_authorization payment of
                  None \<Rightarrow>
                    (Inl (L402PaymentFailedError ''Payment did not return authorization token''), c, w1)
                | Some a \<Rightarrow>
                    if a = []
                    then (Inl (L402PaymentFailedError ''Payment did not return authorization token''), c, w1)
                    else
                      let token = new_token challenge res payment a (now e (clock_reads w1));
                          w2 = w1\<lparr>clock_reads := clock_reads w1 + 1\<rparr>;
                          c2 = c\<lparr>store := store_set (href e) (store c) url token\<rparr>
                      in
                        (case record_payment (now e) p (budget c2, clock_reads w2) of
                           (b3, t3) \<Rightarrow>
                             (case global_fetch e url (with_authorization init a) (w2\<lparr>clock_reads := t3\<rparr>) of
                                (r, w4) \<Rightarrow> (r, c2\<lparr>budget := b3\<rparr>, w4))))))"

definition request_and_pay_earlier ::
  "env \<Rightarrow> string \<Rightarrow> RequestInit option \<Rightarrow> 's L402Client \<times> world \<Rightarrow>
   (error + Response) \<times> 's L402Client \<times> world" where
  "request_and_pay_earlier e url init cw =
     (case cw of (c, w) \<Rightarrow>
        (case global_fetch e url init w of
           (Inl err, w1) \<Rightarrow> (Inl err, c, w1)
         | (Inr res, w1) \<Rightarrow>
             if status res \<noteq> 402 then (Inr res, c, w1)
             else
               (case www_authenticate res of
                  None \<Rightarrow> (Inl (L402Error ''402 response missing WWW-Authenticate header''), c, w1)
                | Some wwwAuth \<Rightarrow>
                    if wwwAuth = []
                    then (Inl (L402Error ''402 response missing WWW-Authenticate header''), c, w1)
                    else
                      (case parseChallenge wwwAuth of
                         None \<Rightarrow> (Inl (L402Error ''Could not parse L402 challenge''), c, w1)
                       | Some challenge \<Rightarrow>
                           let p = price_hint res in
                           if p > maxPrice c
                           then (Inl (L402Error (maxPrice_message p (maxPrice c))), c, w1)
                           else
                             (case check (now e) p (budget c, clock_reads w1) of
                                (Inl err, b2, t2) \<Rightarrow>
                                  (Inl err, c\<lparr>budget := b2\<rparr>, w1\<lparr>clock_reads := t2\<rparr>)
                              | (Inr _, b2, t2) \<Rightarrow>
                                  pay_and_retry_earlier e url init wwwAuth challenge res p
                                    (c\<lparr>budget := b2\<rparr>, w1\<lparr>clock_reads := t2\<rparr>))))))"

definition l402Fetch_earlier ::
  "env \<Rightarrow> string \<Rightarrow> RequestInit option \<Rightarrow> 's L402Client \<times> world \<Rightarrow>
   (error + Response) \<times> 's L402Client \<times> world" where
  "l402Fetch_earlier e url init cw =
     (case check_token_cache e url init cw of
        (Some r, c1, w1) \<Rightarrow> (r, c1, w1)
      | (None, c1, w1) \<Rightarrow> request_and_pay_earlier e url init (c1, w1))"

section \<open>Paywall middleware (server/middleware.ts, server/pricing.ts)\<close>

text \<open>
  The request as far as the middleware reads and writes it: the \<open>authorization\<close>
  header, the path (for pricing functions) and the \<open>l402\<close> property the middleware
  sets. \<open>result.paymentHash!\<close> asserts non-null to the type checker only.
\<close>

record L402RequestData =
  paymentHash :: "string option"
  caveats :: "string list option"

record Request =
  req_authorization :: "string option"
  req_path :: string
  l402 :: "L402RequestData option"

datatype pricing = FixedPrice int | PricingFn "Request \<Rightarrow> error + int"

record L402PaywallOptions =
  paywall_price :: pricing
  description :: "string option"
  expirySeconds :: "int option"
  paywall_caveats :: "string list option"

text \<open>\<open>resolvePrice\<close>; a pricing function may throw or reject.\<close>

fun resolvePrice :: "pricing \<Rightarrow> Request \<Rightarrow> error + int" where
  "resolvePrice (PricingFn f) req = f req"
| "resolvePrice (FixedPrice n) req = Inr n"

text \<open>The SDK's \<open>verify\<close> and \<open>createChallenge\<close>, with the fields the middleware uses.\<close>

record VerifyResult =
  valid :: bool
  verified_paymentHash :: "string option"
  verified_caveats :: "string list option"

record ChallengeParams =
  amount :: int
  param_description :: "string option"
  param_expirySeconds :: "int option"
  param_caveats :: "string list option"

record Challenge =
  wwwAuthenticate :: string
  challenge_invoice :: string
  challenge_macaroon :: string

record sdk =
  verify :: "string \<Rightarrow> error + VerifyResult"
  createChallenge :: "ChallengeParams \<Rightarrow> error + Challenge"

text \<open>The JSON body of the 402 response.\<close>

record PaymentRequiredJson =
  json_type :: string
  json_title :: string
  json_detail :: string
  json_invoice :: string
  json_macaroon :: string
  json_price :: int
  json_unit :: string
  json_description :: "string option"

text \<open>
  What one run of the middleware does: \<open>next()\<close> with the request it has marked,
  \<open>next(err)\<close>, a response with status, \<open>WWW-Authenticate\<close> header and body, or a
  rejected promise (a pricing function that throws is outside both \<open>try\<close> blocks).
\<close>

datatype outcome =
    Next Request
  | NextError error
  | Respond int string PaymentRequiredJson
  | Unhandled error

text \<open>
  \<open>paywall\<close>. The inner \<open>case\<close> is steps 1 and 2: \<open>Some result\<close> when a header with
  the \<open>L402 \<close> prefix verifies as valid, \<open>None\<close> when control reaches step 3, the
  \<open>catch\<close> with the empty body included.
\<close>

definition paywall :: "sdk \<Rightarrow> L402PaywallOptions \<Rightarrow> Request \<Rightarrow> outcome" where
  "paywall ln options req =
     (case (case req_authorization req of
              None \<Rightarrow> None
            | Some authHeader \<Rightarrow>
                if authHeader \<noteq> [] \<and> startsWith authHeader ''L402 '' then
                  (case verify ln authHeader of
                     Inl err \<Rightarrow> None
                   | Inr result \<Rightarrow> if valid result then Some result else None)
                else None) of
        Some result \<Rightarrow>
          Next (req\<lparr>l402 := Some \<lparr>paymentHash = verified_paymentHash result,
                                   caveats = verified_caveats result\<rparr>\<rparr>)
      | None \<Rightarrow>
          (case resolvePrice (paywall_price options) req of
             Inl err \<Rightarrow> Unhandled err
           | Inr p \<Rightarrow>
               (case createChallenge ln
                       \<lparr>amount = p, param_description = description options,
                        param_expirySeconds = expirySeconds options,
                        param_caveats = paywall_caveats options\<rparr> of
                  Inl err \<Rightarrow> NextError err
                | Inr challenge \<Rightarrow>
                    Respond 402 (wwwAuthenticate challenge)
                      \<lparr>json_type = ''payment_required'',
                       json_title = ''Payment Required'',
                       json_detail = ''Pay the included Lightning invoice to access this resource.'',
                       json_invoice = challenge_invoice challenge,
                       json_macaroon = challenge_macaroon challenge,
                       json_price = p,
                       json_unit = ''satoshis'',
                       json_description = description options\<rparr>)))"

section \<open>Example values\<close>

text \<open>A clock whose first readings are listed, and that shows \<open>d\<close> from then on.\<close>

definition clock_from :: "int list \<Rightarrow> int \<Rightarrow> nat \<Rightarrow> int" where
  "clock_from xs d n = (if n < length xs then xs ! n else d)"



text \<open>A budget of 100 sats per day with 60 sats recorded, and a budget without limit.\<close>

definition still_clock :: "nat \<Rightarrow> int" where
  "still_clock = clock_from [] 0"



text \<open>
  A protected URL (its text is its own normal form), the challenge of the package's
  tests, a 402 response carrying it with a price, a 200 response, and a settled payment
  that reports an amount or none.
\<close>

definition example_url :: string where
  "example_url = ''https://api.example.com/premium/data''"

definition example_href :: "string \<Rightarrow> string option" where
  "example_href url = Some url"

definition example_wwwAuth :: string where
  \<open>example_wwwAuth = ''L402 macaroon="mac", invoice="inv"''\<close>

definition challenge_response :: "int \<Rightarrow> Response" where
  "challenge_response p =
     \<lparr>status = 402, www_authenticate = Some example_wwwAuth,
      json = Some \<lparr>price = Some p, body_expiresAt = None\<rparr>, content = []\<rparr>"

definition ok_response :: Response where
  "ok_response = \<lparr>status = 200, www_authenticate = None, json = None, content = ''premium''\<rparr>"

definition settled_payment :: "int option \<Rightarrow> L402Payment" where
  "settled_payment amt =
     \<lparr>pay_status = ''settled'', pay_authorization = Some ''L402 mac:pre'',
      pay_preimage = Some ''pre'', pay_amount = amt\<rparr>"

text \<open>
  An outside in which the clock stays at 0, the server answers the calls numbered below
  \<open>k\<close> with a challenge of price \<open>p\<close> and every later one with the 200 response
  (the number of a call counts the fetches and payments before it), and the payer
  settles, reporting \<open>amt\<close>.
\<close>

definition example_env :: "nat \<Rightarrow> int \<Rightarrow> int option \<Rightarrow> env" where
  "example_env k p amt =
     \<lparr>now = still_clock, href = example_href,
      fetch_reply = (\<lambda>n url init. if n < k then Inr (challenge_response p) else Inr ok_response),
      pay_reply = (\<lambda>n wwwAuthenticate. Inr (settled_payment amt))\<rparr>"

text \<open>
  The server challenges the first call only; it challenges every call; it challenges
  the first two calls; it challenges none.
\<close>

definition paying_env :: "int option \<Rightarrow> env" where
  "paying_env amt = example_env 1 5 amt"

definition stubborn_env :: "int \<Rightarrow> env" where
  "stubborn_env p = example_env 100 p (Some p)"

definition relenting_env :: env where
  "relenting_env = example_env 2 5 (Some 5)"

definition open_env :: env where
  "open_env = example_env 0 5 None"

text \<open>
  Clients: one made by \<open>client\<close> from options, with no call made before; and one
  whose in-memory store already holds a credential for the URL, with or without an
  expiry.
\<close>

definition new_world :: world where
  "new_world = \<lparr>clock_reads = 0, calls = []\<rparr>"

definition default_options :: "unit L402ClientOptions" where
  "default_options =
     \<lparr>opt_maxPrice = None, opt_budgetSats = None, opt_budgetPeriod = None, opt_store = None\<rparr>"

definition capped_options :: "unit L402ClientOptions" where
  "capped_options =
     \<lparr>opt_maxPrice = Some 100, opt_budgetSats = None, opt_budgetPeriod = None, opt_store = None\<rparr>"

definition new_client :: "env \<Rightarrow> unit L402ClientOptions \<Rightarrow> unit L402Client \<times> world" where
  "new_client e options = client e options new_world"

definition old_token :: "int option \<Rightarrow> L402Token" where
  "old_token expiry =
     \<lparr>macaroon = ''mac'', preimage = ''old'', authorization = ''L402 mac:old'', paidAt = 0,
      expiresAt = expiry\<rparr>"

definition caching_client :: "int option \<Rightarrow> unit L402Client \<times> world" where
  "caching_client expiry =
     (\<lparr>store = MemoryStore [example_url \<mapsto> old_token expiry],
       budget = \<lparr>spent = 0, periodStart = 0, totalSats = None, periodMs = None\<rparr>,
       maxPrice = 1000\<rparr>,
      \<lparr>clock_reads = 1, calls = []\<rparr>)"

text \<open>The credential the example payment yields, and a request that carries an authorization.\<close>

definition paid_token :: L402Token where
  "paid_token =
     \<lparr>macaroon = ''mac'', preimage = ''pre'', authorization = ''L402 mac:pre'', paidAt = 0,
      expiresAt = None\<rparr>"

definition authorized :: "string \<Rightarrow> RequestInit option" where
  "authorized a = Some \<lparr>request_method = None, headers = [(''authorization'', a)], payload = None\<rparr>"

text \<open>
  For the paywall: an SDK whose \<open>verify\<close> gives a fixed answer and whose
  \<open>createChallenge\<close> succeeds, a fixed price of 5, a request with or without an
  \<open>authorization\<close> header, and the 402 response the middleware then sends.
\<close>

definition example_challenge :: Challenge where
  "example_challenge =
     \<lparr>wwwAuthenticate = example_wwwAuth, challenge_invoice = ''inv'', challenge_macaroon = ''mac''\<rparr>"

definition example_sdk :: "(error + VerifyResult) \<Rightarrow> sdk" where
  "example_sdk v = \<lparr>verify = (\<lambda>authorization_header. v),
                    createChallenge = (\<lambda>params. Inr example_challenge)\<rparr>"

definition invalid_result :: VerifyResult where
  "invalid_result = \<lparr>valid = False, verified_paymentHash = None, verified_caveats = None\<rparr>"

definition example_paywall_options :: L402PaywallOptions where
  "example_paywall_options =
     \<lparr>paywall_price = FixedPrice 5, description = None, expirySeconds = None,
      paywall_caveats = None\<rparr>"

definition example_request :: "string option \<Rightarrow> Request" where
  "example_request h = \<lparr>req_authorization = h, req_path = ''/test'', l402 = None\<rparr>"

definition example_402 :: outcome where
  "example_402 =
     Respond 402 example_wwwAuth
       \<lparr>json_type = ''payment_required'',
        json_title = ''Payment Required'',
        json_detail = ''Pay the included Lightning invoice to access this resource.'',
        json_invoice = ''inv'', json_macaroon = ''mac'', json_price = 5,
        json_unit = ''satoshis'', json_description = None\<rparr>"

section \<open>Properties of the header codec\<close>

lemma lastIndexOf_absent: "c \<notin> set ys \<Longrightarrow> lastIndexOf ys c = None"
  by (induction ys) (auto split: option.splits)

lemma lastIndexOf_last_occurrence:
  "c \<notin> set ys \<Longrightarrow> lastIndexOf (xs @ c # ys) c = Some (length xs)"
  by (induction xs) (auto simp: lastIndexOf_absent split: option.splits)

text \<open>
  The authorization half of the round trip holds, and needs less than the claim asks:
  only the preimage must be free of colons.
\<close>

lemma parseAuthorization_formatAuthorization:
  "CHR '':'' \<notin> set p \<Longrightarrow> parseAuthorization (formatAuthorization m p) = Some (m, p)"
  by (simp add: parseAuthorization_def formatAuthorization_def startsWith_def
      lastIndexOf_last_occurrence)

text \<open>
  The challenge half of the round trip, for the inputs on which it holds: the macaroon
  must not end in \<open>invoice=\<close>. The matcher skips characters that cannot begin the
  key, finds no match that begins inside a quoted value unless the value ends in the
  key and \<open>=\<close>, and matches at the attribute itself.
\<close>

lemma match_attr_here: "match_here key s = Some v \<Longrightarrow> match_attr key s = Some v"
  by (cases s) simp_all

lemma match_here_first_char:
  "x \<noteq> k \<Longrightarrow> match_here (k # key) (x # s) = None"
  by (simp add: match_here_def startsWith_def)

lemma match_attr_skip_chars:
  "k \<notin> set xs \<Longrightarrow> match_attr (k # key) (xs @ c # ys) = match_attr (k # key) (c # ys)"
  by (induction xs) (auto simp: match_here_first_char)

lemma takeWhile_until: "q \<notin> set v \<Longrightarrow> takeWhile (\<lambda>c. c \<noteq> q) (v @ q # rest) = v"
  by (induction v) auto

lemma dropWhile_until: "q \<notin> set v \<Longrightarrow> dropWhile (\<lambda>c. c \<noteq> q) (v @ q # rest) = q # rest"
  by (induction v) auto

lemma takeWhile_whole: "q \<notin> set v \<Longrightarrow> takeWhile (\<lambda>c. c \<noteq> q) v = v"
  by (induction v) auto

lemma match_here_attribute:
  assumes "v \<noteq> []" and "CHR 0x22 \<notin> set v"
  shows "match_here key (key @ CHR ''='' # CHR 0x22 # v @ CHR 0x22 # rest) = Some v"
proof -
  have "takeWhile (\<lambda>c. c \<noteq> CHR 0x22) (v @ CHR 0x22 # rest) = v"
    using assms(2) by (rule takeWhile_until)
  moreover have "dropWhile (\<lambda>c. c \<noteq> CHR 0x22) (v @ CHR 0x22 # rest) = CHR 0x22 # rest"
    using assms(2) by (rule dropWhile_until)
  ultimately show ?thesis
    using assms(1) by (simp add: match_here_def startsWith_def Let_def)
qed

lemma match_here_inside_value:
  assumes quote_free: "CHR 0x22 \<notin> set v"
    and no_key: "v \<noteq> key @ ''=''"
    and key_free: "CHR 0x22 \<notin> set key"
  shows "match_here key (v @ CHR 0x22 # rest) = None"
proof (rule ccontr)
  assume "match_here key (v @ CHR 0x22 # rest) \<noteq> None"
  then have "startsWith (v @ CHR 0x22 # rest) (key @ [CHR ''='', CHR 0x22])"
    by (auto simp: match_here_def Let_def split: if_splits)
  then have eq: "take (length key + 2) (v @ CHR 0x22 # rest) = (key @ ''='') @ CHR 0x22 # []"
    by (simp add: startsWith_def)
  have "CHR 0x22 \<notin> set (key @ ''='')" using key_free by simp
  then have "takeWhile (\<lambda>c. c \<noteq> CHR 0x22) (take (length key + 2) (v @ CHR 0x22 # rest)) = key @ ''=''"
    unfolding eq by (rule takeWhile_until)
  moreover have "takeWhile (\<lambda>c. c \<noteq> CHR 0x22) (take (length key + 2) (v @ CHR 0x22 # rest)) =
      take (length key + 2) v"
  proof (cases "length key + 2 \<le> length v")
    case True
    then have "take (length key + 2) (v @ CHR 0x22 # rest) = take (length key + 2) v" by simp
    moreover have "CHR 0x22 \<notin> set (take (length key + 2) v)"
      using quote_free by (auto dest: in_set_takeD)
    ultimately show ?thesis by (simp add: takeWhile_whole)
  next
    case False
    then obtain n where n: "length key + 2 - length v = Suc n" by (cases "length key + 2 - length v") auto
    with False have "take (length key + 2) (v @ CHR 0x22 # rest) = v @ CHR 0x22 # take n rest"
      by simp
    with False quote_free show ?thesis by (simp add: takeWhile_until)
  qed
  ultimately have v: "take (length key + 2) v = key @ ''=''" by simp
  then have "length (take (length key + 2) v) = length key + 1" by simp
  then have "length v = length key + 1" by (simp add: min_def split: if_splits)
  with v have "v = key @ ''=''" by simp
  with no_key show False by simp
qed

lemma match_attr_skip_value:
  assumes "CHR 0x22 \<notin> set v" and "\<not> suffix (key @ ''='') v" and "CHR 0x22 \<notin> set key"
  shows "match_attr key (v @ CHR 0x22 # rest) = match_attr key (CHR 0x22 # rest)"
  using assms
proof (induction v)
  case Nil
  then show ?case by simp
next
  case (Cons x v)
  from Cons.prems(2) have ns: "\<not> suffix (key @ ''='') v" by (simp add: suffix_Cons)
  from Cons.prems(2) have ne: "x # v \<noteq> key @ ''=''" by auto
  from Cons.prems(1) have qf: "CHR 0x22 \<notin> set (x # v)" "CHR 0x22 \<notin> set v" by auto
  from match_here_inside_value[OF qf(1) ne Cons.prems(3), of rest]
  have "match_here key (x # v @ CHR 0x22 # rest) = None" by simp
  with Cons.IH[OF qf(2) ns Cons.prems(3)] show ?case by simp
qed

lemma parseChallenge_formatChallenge:
  assumes "m \<noteq> []" "i \<noteq> []" "CHR 0x22 \<notin> set m" "CHR 0x22 \<notin> set i"
    and "\<not> suffix ''invoice='' m"
  shows "parseChallenge (formatChallenge m i) = Some (m, i)"
proof -
  let ?tail = \<open>'', invoice="'' @ i @ ''"''\<close>
  have mac: \<open>match_attr ''macaroon'' (''L402 macaroon="'' @ m @ CHR 0x22 # ?tail) = Some m\<close>
  proof -
    have \<open>match_attr ''macaroon'' (''L402 '' @ CHR ''m'' # (''acaroon="'' @ m @ CHR 0x22 # ?tail)) =
          match_attr ''macaroon'' (CHR ''m'' # (''acaroon="'' @ m @ CHR 0x22 # ?tail))\<close>
      by (rule match_attr_skip_chars) simp
    moreover have \<open>match_here ''macaroon'' (''macaroon'' @ CHR ''='' # CHR 0x22 # m @ CHR 0x22 # ?tail) = Some m\<close>
      using assms by (intro match_here_attribute) simp_all
    then have \<open>match_attr ''macaroon'' (''macaroon'' @ CHR ''='' # CHR 0x22 # m @ CHR 0x22 # ?tail) = Some m\<close>
      by (rule match_attr_here)
    ultimately show ?thesis by simp
  qed
  have inv: \<open>match_attr ''invoice'' (''L402 macaroon="'' @ m @ CHR 0x22 # ?tail) = Some i\<close>
  proof -
    have a: \<open>match_attr ''invoice'' (''L402 macaroon='' @ CHR 0x22 # (m @ CHR 0x22 # ?tail)) =
          match_attr ''invoice'' (CHR 0x22 # (m @ CHR 0x22 # ?tail))\<close>
      by (rule match_attr_skip_chars) simp
    have b: \<open>match_attr ''invoice'' (CHR 0x22 # (m @ CHR 0x22 # ?tail)) =
             match_attr ''invoice'' (m @ CHR 0x22 # ?tail)\<close>
      by (simp add: match_here_first_char)
    have c: \<open>match_attr ''invoice'' (m @ CHR 0x22 # ?tail) = match_attr ''invoice'' (CHR 0x22 # ?tail)\<close>
      using assms by (intro match_attr_skip_value) simp_all
    have d: \<open>match_attr ''invoice'' (''", '' @ CHR ''i'' # (''nvoice="'' @ i @ ''"'')) =
             match_attr ''invoice'' (CHR ''i'' # (''nvoice="'' @ i @ ''"''))\<close>
      by (rule match_attr_skip_chars) simp
    have \<open>match_here ''invoice'' (''invoice'' @ CHR ''='' # CHR 0x22 # i @ CHR 0x22 # []) = Some i\<close>
      using assms by (intro match_here_attribute) simp_all
    then have e: \<open>match_attr ''invoice'' (''invoice'' @ CHR ''='' # CHR 0x22 # i @ CHR 0x22 # []) = Some i\<close>
      by (rule match_attr_here)
    from a b c d e show ?thesis by simp
  qed
  from mac inv show ?thesis
    by (simp add: parseChallenge_def formatChallenge_def startsWith_def)
qed

text \<open>
  C7. Round trip of the two header formats. The challenge half fails: neither regular
  expression is anchored, so for a macaroon that ends in \<open>invoice=\<close> the invoice
  pattern first matches inside the macaroon attribute, at \<open>invoice="\<close> formed by the
  macaroon's tail and its closing quote. For the macaroon \<open>invoice=\<close> and the invoice
  \<open>lnbc1\<close>, both non-empty and free of double quotes, \<open>parseChallenge\<close> returns the
  invoice \<open>, invoice=\<close>.
\<close>

theorem C7_challenge_roundtrip_fails:
  \<open>formatChallenge ''invoice='' ''lnbc1'' = ''L402 macaroon="invoice=", invoice="lnbc1"'' \<and>
   parseChallenge (formatChallenge ''invoice='' ''lnbc1'') = Some (''invoice='', '', invoice='') \<and>
   parseChallenge (formatChallenge ''invoice='' ''lnbc1'') \<noteq> Some (''invoice='', ''lnbc1'')\<close>
  by (simp add: parseChallenge_def formatChallenge_def startsWith_def match_here_def)

section \<open>Properties of the budget tracker\<close>

lemma maybeReset_spent:
  "spent (fst (maybeReset clk (b, t))) = spent b \<or> spent (fst (maybeReset clk (b, t))) = 0"
  by (auto simp: maybeReset_def split: option.splits)

lemma maybeReset_limits:
  "periodMs (fst (maybeReset clk (b, t))) = periodMs b"
  "totalSats (fst (maybeReset clk (b, t))) = totalSats b"
  by (auto simp: maybeReset_def split: option.splits)

lemma maybeReset_no_period: "periodMs b = None \<Longrightarrow> maybeReset clk (b, t) = (b, t)"
  by (simp add: maybeReset_def)




section \<open>Properties of the client\<close>

subsection \<open>The list of calls\<close>

lemma no_Pay_no_split:
  "filter is_Pay N = [] \<Longrightarrow> N \<noteq> pre @ Pay a b # post"
  by (auto split: if_splits)

lemma first_Pay_unique:
  assumes "filter is_Pay X = []" "filter is_Pay Y = []"
    and "X @ Pay a b # Y = pre @ Pay a' b' # post"
  shows "pre = X \<and> a' = a \<and> b' = b \<and> post = Y"
  using assms
proof (induction X arbitrary: pre)
  case Nil
  then show ?case by (cases pre) (auto split: if_splits)
next
  case (Cons x X)
  then show ?case by (cases pre) (auto split: if_splits)
qed

subsection \<open>Headers and the in-memory store\<close>

lemma headers_get_set: "headers_get name (headers_set name v hs) = Some v"
proof -
  have "map_of (filter (\<lambda>kv. fst kv \<noteq> name) hs) name = None"
    by (auto simp: map_of_eq_None_iff)
  then show ?thesis
    by (simp add: headers_get_def headers_set_def map_add_def)
qed

lemma request_header_with_authorization:
  "request_header ''authorization'' (with_authorization init v) = Some v"
  by (simp add: request_header_def with_authorization_def headers_get_set split: option.splits)

lemma memory_store_get_set:
  "store_get h (store_set h (MemoryStore m) url tok) url = Some tok"
  by simp

lemma memory_store_get_delete:
  "store_get h (store_delete h (MemoryStore m) url) url = None"
  by simp

lemma memory_store_set_delete:
  "store_get h (store_set h (store_delete h (MemoryStore m) url) url tok) url = Some tok"
  by simp

lemma authorization_new_token: "authorization (new_token ch res payment a paid) = a"
  by (simp add: new_token_def Let_def)

subsection \<open>Step 1\<close>

text \<open>
  The three ways through step 1: no credential, an expired one, and one that is sent.
\<close>

lemma check_token_cache_absent:
  "store_get (href e) (store c) url = None \<Longrightarrow> check_token_cache e url init (c, w) = (None, c, w)"
  by (simp add: check_token_cache_def)


lemma check_token_cache_fresh:
  assumes "store_get (href e) (store c) url = Some cached"
    and "case expiresAt cached of None \<Rightarrow> True | Some t \<Rightarrow> now e (clock_reads w) < t"
  shows "check_token_cache e url init (c, w) =
     (let rep = fetch_reply e (length (calls w)) url (with_authorization init (authorization cached));
          w1 = w\<lparr>clock_reads := (case expiresAt cached of None \<Rightarrow> clock_reads w
                                   | Some t \<Rightarrow> clock_reads w + 1),
                 calls := calls w @ [Fetch url (with_authorization init (authorization cached)) rep]\<rparr>
      in case rep of
           Inl err \<Rightarrow> (Some (Inl err), c, w1)
         | Inr res \<Rightarrow>
             if status res \<noteq> 402 then (Some (Inr res), c, w1)
             else (None, c\<lparr>store := store_delete (href e) (store c) url\<rparr>, w1))"
  using assms
  by (auto simp: check_token_cache_def global_fetch_def Let_def split: option.splits sum.splits)

lemma check_token_cache_facts:
  assumes "check_token_cache e url init (c, w) = (x, c1, w1)"
  shows "budget c1 = budget c" "maxPrice c1 = maxPrice c"
    "store c1 = store c \<or> store c1 = store_delete (href e) (store c) url"
    "clock_reads w1 = clock_reads w \<or> clock_reads w1 = clock_reads w + 1"
    "\<exists>A. calls w1 = calls w @ A \<and> filter is_Pay A = []"
  using assms
  by (auto simp: check_token_cache_def global_fetch_def Let_def
      split: option.splits if_splits sum.splits prod.splits)

subsection \<open>The budget between the steps\<close>

lemma check_facts:
  assumes "check clk p (b, t) = (x, b', t')"
  shows "spent b' = spent b \<or> spent b' = 0" "periodMs b' = periodMs b"
    "totalSats b' = totalSats b" "periodMs b = None \<longrightarrow> b' = b"
  using assms
  by (auto simp: check_def maybeReset_def Let_def split: option.splits if_splits)


subsection \<open>Steps 5 to 7\<close>

lemma pay_and_retry_settled:
  assumes "pay_reply e (length (calls w)) wwwAuth = Inr payment"
    and "pay_status payment \<noteq> ''failed''"
    and "pay_authorization payment = Some a" and "a \<noteq> []"
  shows "pay_and_retry e url init wwwAuth ch res p (c, w) =
    (let retry = fetch_reply e (Suc (length (calls w))) url (with_authorization init a);
         bt = record_payment (now e) (case pay_amount payment of Some x \<Rightarrow> x | None \<Rightarrow> p)
                (budget c, clock_reads w + 1)
     in ((case retry of
            Inl err \<Rightarrow> Inl err
          | Inr rr \<Rightarrow> if status rr = 402
                     then Inl (L402PaymentFailedError ''Server returned 402 after successful payment'')
                     else Inr rr),
         c\<lparr>store := store_set (href e) (store c) url
                      (new_token ch res payment a (now e (clock_reads w))),
           budget := fst bt\<rparr>,
         w\<lparr>clock_reads := snd bt,
           calls := calls w @ [Pay wwwAuth (Inr payment), Fetch url (with_authorization init a) retry]\<rparr>))"
  using assms
  by (simp add: pay_and_retry_def l402_pay_def global_fetch_def Let_def split: prod.splits sum.splits)

lemma pay_and_retry_calls:
  assumes "pay_and_retry e url init wwwAuth ch res p (c, w) = (r, c', w')"
  shows "\<exists>B. calls w' = calls w @ Pay wwwAuth (pay_reply e (length (calls w)) wwwAuth) # B \<and>
             filter is_Pay B = []"
  using assms
  by (auto simp: pay_and_retry_def l402_pay_def global_fetch_def Let_def
      split: prod.splits sum.splits option.splits if_splits)


subsection \<open>Steps 2 to 4\<close>

lemma request_and_pay_cases:
  assumes "request_and_pay e url init (c, w) = (r, c', w')"
  shows "(calls w' = calls w @ [Fetch url init (fetch_reply e (length (calls w)) url init)] \<and>
          store c' = store c) \<or>
         (\<exists>res wwwAuth ch b2 t2.
            fetch_reply e (length (calls w)) url init = Inr res \<and> status res = 402 \<and>
            www_authenticate res = Some wwwAuth \<and> wwwAuth \<noteq> [] \<and>
            parseChallenge wwwAuth = Some ch \<and> price_hint res \<le> maxPrice c \<and>
            check (now e) (price_hint res) (budget c, clock_reads w) = (Inr (), b2, t2) \<and>
            pay_and_retry e url init wwwAuth ch res (price_hint res)
              (c\<lparr>budget := b2\<rparr>,
               w\<lparr>calls := calls w @ [Fetch url init (Inr res)], clock_reads := t2\<rparr>) = (r, c', w'))"
  using assms
  by (auto simp: request_and_pay_def global_fetch_def Let_def
      split: prod.splits sum.splits option.splits if_splits)

lemma request_and_pay_challenged:
  assumes "fetch_reply e (length (calls w)) url init = Inr res"
    and "status res = 402" "www_authenticate res = Some wwwAuth" "wwwAuth \<noteq> []"
    and "parseChallenge wwwAuth = Some ch"
  shows "request_and_pay e url init (c, w) =
     (if price_hint res > maxPrice c
      then (Inl (L402BudgetExceededError (maxPrice_message (price_hint res) (maxPrice c))), c,
            w\<lparr>calls := calls w @ [Fetch url init (Inr res)]\<rparr>)
      else
        (case check (now e) (price_hint res) (budget c, clock_reads w) of
           (Inl err, b2, t2) \<Rightarrow>
             (Inl err, c\<lparr>budget := b2\<rparr>,
              w\<lparr>calls := calls w @ [Fetch url init (Inr res)], clock_reads := t2\<rparr>)
         | (Inr _, b2, t2) \<Rightarrow>
             pay_and_retry e url init wwwAuth ch res (price_hint res)
               (c\<lparr>budget := b2\<rparr>,
                w\<lparr>calls := calls w @ [Fetch url init (Inr res)], clock_reads := t2\<rparr>)))"
  using assms
  by (simp add: request_and_pay_def global_fetch_def Let_def split: prod.splits sum.splits)

lemma request_and_pay_first_call:
  assumes "request_and_pay e url init (c, w) = (r, c', w')"
  shows "take (Suc (length (calls w))) (calls w') =
           calls w @ [Fetch url init (fetch_reply e (length (calls w)) url init)]"
proof -
  from request_and_pay_cases[OF assms] show ?thesis
  proof (elim disjE exE conjE)
    assume "calls w' = calls w @ [Fetch url init (fetch_reply e (length (calls w)) url init)]"
    then show ?thesis by simp
  next
    fix res www ch b2 t2
    assume rep: "fetch_reply e (length (calls w)) url init = Inr res"
      and par: "pay_and_retry e url init www ch res (price_hint res)
              (c\<lparr>budget := b2\<rparr>,
               w\<lparr>calls := calls w @ [Fetch url init (Inr res)], clock_reads := t2\<rparr>) = (r, c', w')"
    from pay_and_retry_calls[OF par] obtain B where
      "calls w' = (calls w @ [Fetch url init (Inr res)]) @ Pay www (pay_reply e (Suc (length (calls w))) www) # B"
      by auto
    with rep show ?thesis by simp
  qed
qed


subsection \<open>Whole runs\<close>

lemma cache_hit:
  assumes "store_get (href e) (store c) url = Some cached"
    and "case expiresAt cached of None \<Rightarrow> True | Some t \<Rightarrow> now e (clock_reads w) < t"
    and "fetch_reply e (length (calls w)) url (with_authorization init (authorization cached)) = Inr res"
    and "status res \<noteq> 402"
  shows "l402Fetch e url init (c, w) =
     (Inr res, c,
      w\<lparr>clock_reads := (case expiresAt cached of None \<Rightarrow> clock_reads w | Some t \<Rightarrow> clock_reads w + 1),
        calls := calls w @ [Fetch url (with_authorization init (authorization cached)) (Inr res)]\<rparr>)"
  using assms
  by (simp add: l402Fetch_def check_token_cache_fresh Let_def)


text \<open>A run in which the payer was called went through steps 1 to 4 and into step 5.\<close>

lemma l402Fetch_paid:
  assumes run: "l402Fetch e url init (c, w) = (r, c', w')"
    and paid: "calls w' = calls w @ pre @ Pay wwwAuth pres # post"
  obtains c1 w1 res ch A where
      "calls w1 = calls w @ pre" "pre = A @ [Fetch url init (Inr res)]" "filter is_Pay pre = []"
      "status res = 402" "www_authenticate res = Some wwwAuth" "wwwAuth \<noteq> []"
      "parseChallenge wwwAuth = Some ch" "price_hint res \<le> maxPrice c"
      "spent (budget c1) = spent (budget c) \<or> spent (budget c1) = 0"
      "periodMs (budget c1) = periodMs (budget c)"
      "periodMs (budget c) = None \<longrightarrow> spent (budget c1) = spent (budget c)"
      "store c1 = store c \<or> store c1 = store_delete (href e) (store c) url"
      "pay_and_retry e url init wwwAuth ch res (price_hint res) (c1, w1) = (r, c', w')"
proof -
  obtain x c0 w0 where s1: "check_token_cache e url init (c, w) = (x, c0, w0)"
    by (cases "check_token_cache e url init (c, w)") auto
  from check_token_cache_facts[OF s1] obtain A where
    b0: "budget c0 = budget c" and m0: "maxPrice c0 = maxPrice c"
    and st0: "store c0 = store c \<or> store c0 = store_delete (href e) (store c) url"
    and A: "calls w0 = calls w @ A" "filter is_Pay A = []"
    by blast
  show ?thesis
  proof (cases x)
    case (Some r0)
    with run s1 have "w' = w0" by (simp add: l402Fetch_def)
    with A paid have "A = pre @ Pay wwwAuth pres # post" by simp
    with no_Pay_no_split[OF A(2)] show ?thesis by blast
  next
    case None
    with run s1 have tail: "request_and_pay e url init (c0, w0) = (r, c', w')"
      by (simp add: l402Fetch_def)
    let ?rep = "fetch_reply e (length (calls w0)) url init"
    from request_and_pay_cases[OF tail] show ?thesis
    proof
      assume "calls w' = calls w0 @ [Fetch url init ?rep] \<and> store c' = store c0"
      with A paid have "A @ [Fetch url init ?rep] = pre @ Pay wwwAuth pres # post" by simp
      moreover have "filter is_Pay (A @ [Fetch url init ?rep]) = []" using A(2) by simp
      ultimately show ?thesis using no_Pay_no_split by blast
    next
      assume "\<exists>res www ch b2 t2.
            ?rep = Inr res \<and> status res = 402 \<and>
            www_authenticate res = Some www \<and> www \<noteq> [] \<and>
            parseChallenge www = Some ch \<and> price_hint res \<le> maxPrice c0 \<and>
            check (now e) (price_hint res) (budget c0, clock_reads w0) = (Inr (), b2, t2) \<and>
            pay_and_retry e url init www ch res (price_hint res)
              (c0\<lparr>budget := b2\<rparr>,
               w0\<lparr>calls := calls w0 @ [Fetch url init (Inr res)], clock_reads := t2\<rparr>) = (r, c', w')"
      then obtain res www ch b2 t2 where
        ok: "status res = 402" "www_authenticate res = Some www" "www \<noteq> []"
          "parseChallenge www = Some ch" "price_hint res \<le> maxPrice c0"
        and chk: "check (now e) (price_hint res) (budget c0, clock_reads w0) = (Inr (), b2, t2)"
        and par: "pay_and_retry e url init www ch res (price_hint res)
              (c0\<lparr>budget := b2\<rparr>,
               w0\<lparr>calls := calls w0 @ [Fetch url init (Inr res)], clock_reads := t2\<rparr>) = (r, c', w')"
        by blast
      let ?w1 = "w0\<lparr>calls := calls w0 @ [Fetch url init (Inr res)], clock_reads := t2\<rparr>"
      have nopay: "filter is_Pay (A @ [Fetch url init (Inr res)]) = []" using A(2) by simp
      from pay_and_retry_calls[OF par] obtain B where
        B: "calls w' = calls ?w1 @ Pay www (pay_reply e (length (calls ?w1)) www) # B"
           "filter is_Pay B = []" by blast
      from B(1) A(1) paid have
        "(A @ [Fetch url init (Inr res)]) @ Pay www (pay_reply e (length (calls ?w1)) www) # B
           = pre @ Pay wwwAuth pres # post" by simp
      from first_Pay_unique[OF nopay B(2) this] have
        eqs: "pre = A @ [Fetch url init (Inr res)]" "wwwAuth = www" by auto
      let ?c1 = "c0\<lparr>budget := b2\<rparr>"
      have g1: "calls ?w1 = calls w @ pre" using A(1) eqs by simp
      have g2: "pre = A @ [Fetch url init (Inr res)]" by (rule eqs)
      have g3: "filter is_Pay pre = []" using nopay eqs by simp
      have g4: "www_authenticate res = Some wwwAuth" "wwwAuth \<noteq> []"
        "parseChallenge wwwAuth = Some ch" "price_hint res \<le> maxPrice c"
        using ok eqs(2) m0 by simp_all
      have g5: "spent (budget ?c1) = spent (budget c) \<or> spent (budget ?c1) = 0"
        using check_facts(1)[OF chk] b0 by simp
      have g6: "periodMs (budget ?c1) = periodMs (budget c)"
        using check_facts(2)[OF chk] b0 by simp
      have g7: "periodMs (budget c) = None \<longrightarrow> spent (budget ?c1) = spent (budget c)"
        using check_facts(4)[OF chk] b0 by simp
      have g8: "store ?c1 = store c \<or> store ?c1 = store_delete (href e) (store c) url"
        using st0 by simp
      have g9: "pay_and_retry e url init wwwAuth ch res (price_hint res) (?c1, ?w1) = (r, c', w')"
        using par eqs(2) by simp
      show ?thesis
        by (rule that[OF g1 g2 g3 ok(1) g4 g5 g6 g7 g8 g9])
    qed
  qed
qed


text \<open>A run in which the payer settled and returned an authorization, in full.\<close>

lemma l402Fetch_paid_settled:
  assumes run: "l402Fetch e url init (c :: 's L402Client, w) = (r, c', w')"
    and paid: "calls w' = calls w @ pre @ Pay wwwAuth (Inr payment) # post"
    and settled: "pay_status payment \<noteq> ''failed''"
    and auth: "pay_authorization payment = Some a" "a \<noteq> []"
  obtains c1 :: "'s L402Client" and w1 :: world and res ch A where
      "calls w1 = calls w @ pre" "pre = A @ [Fetch url init (Inr res)]" "filter is_Pay pre = []"
      "status res = 402" "www_authenticate res = Some wwwAuth"
      "parseChallenge wwwAuth = Some ch" "price_hint res \<le> maxPrice c"
      "spent (budget c1) = spent (budget c) \<or> spent (budget c1) = 0"
      "periodMs (budget c1) = periodMs (budget c)"
      "periodMs (budget c) = None \<longrightarrow> spent (budget c1) = spent (budget c)"
      "store c1 = store c \<or> store c1 = store_delete (href e) (store c) url"
      "r = (case fetch_reply e (Suc (length (calls w1))) url (with_authorization init a) of
              Inl err \<Rightarrow> Inl err
            | Inr rr \<Rightarrow>
                if status rr = 402
                then Inl (L402PaymentFailedError ''Server returned 402 after successful payment'')
                else Inr rr)"
      "c' = c1\<lparr>store := store_set (href e) (store c1) url
                         (new_token ch res payment a (now e (clock_reads w1))),
               budget := fst (record_payment (now e)
                                (case pay_amount payment of Some x \<Rightarrow> x | None \<Rightarrow> price_hint res)
                                (budget c1, clock_reads w1 + 1))\<rparr>"
      "post = [Fetch url (with_authorization init a)
                 (fetch_reply e (Suc (length (calls w1))) url (with_authorization init a))]"
proof -
  from run paid obtain c1 w1 res ch A where
    f: "calls w1 = calls w @ pre" "pre = A @ [Fetch url init (Inr res)]" "filter is_Pay pre = []"
      "status res = 402" "www_authenticate res = Some wwwAuth" "wwwAuth \<noteq> []"
      "parseChallenge wwwAuth = Some ch" "price_hint res \<le> maxPrice c"
      "spent (budget c1) = spent (budget c) \<or> spent (budget c1) = 0"
      "periodMs (budget c1) = periodMs (budget c)"
      "periodMs (budget c) = None \<longrightarrow> spent (budget c1) = spent (budget c)"
      "store c1 = store c \<or> store c1 = store_delete (href e) (store c) url"
    and par: "pay_and_retry e url init wwwAuth ch res (price_hint res) (c1, w1) = (r, c', w')"
    by (rule l402Fetch_paid)
  from pay_and_retry_calls[OF par] obtain B where
    B: "calls w' = calls w1 @ Pay wwwAuth (pay_reply e (length (calls w1)) wwwAuth) # B" by blast
  with paid f(1) have rep: "pay_reply e (length (calls w1)) wwwAuth = Inr payment" by simp
  let ?retry = "fetch_reply e (Suc (length (calls w1))) url (with_authorization init a)"
  let ?bt = "record_payment (now e) (case pay_amount payment of Some x \<Rightarrow> x | None \<Rightarrow> price_hint res)
                (budget c1, clock_reads w1 + 1)"
  from par pay_and_retry_settled[OF rep settled auth, of url init ch res "price_hint res" c1]
  have all: "(r, c', w') =
     ((case ?retry of
            Inl err \<Rightarrow> Inl err
          | Inr rr \<Rightarrow> if status rr = 402
                     then Inl (L402PaymentFailedError ''Server returned 402 after successful payment'')
                     else Inr rr),
         c1\<lparr>store := store_set (href e) (store c1) url
                      (new_token ch res payment a (now e (clock_reads w1))),
           budget := fst ?bt\<rparr>,
         w1\<lparr>clock_reads := snd ?bt,
           calls := calls w1 @ [Pay wwwAuth (Inr payment), Fetch url (with_authorization init a) ?retry]\<rparr>)"
    by (simp add: Let_def)
  from all have w3: "calls w' = calls w1 @ [Pay wwwAuth (Inr payment), Fetch url (with_authorization init a) ?retry]"
    by simp
  from w3 paid f(1) have p3: "post = [Fetch url (with_authorization init a) ?retry]" by simp
  from all have g1: "r = (case ?retry of
              Inl err \<Rightarrow> Inl err
            | Inr rr \<Rightarrow>
                if status rr = 402
                then Inl (L402PaymentFailedError ''Server returned 402 after successful payment'')
                else Inr rr)"
    and g2: "c' = c1\<lparr>store := store_set (href e) (store c1) url
                         (new_token ch res payment a (now e (clock_reads w1))),
               budget := fst ?bt\<rparr>"
    by simp_all
  show ?thesis
    by (rule that[OF f(1-5) f(7-12) g1 g2 p3])
qed

lemma token_after_payment:
  assumes run: "l402Fetch e url init (c :: 's L402Client, w) = (r, c', w')"
    and paid: "calls w' = calls w @ pre @ Pay wwwAuth (Inr payment) # post"
    and settled: "pay_status payment \<noteq> ''failed''"
    and auth: "pay_authorization payment = Some a" "a \<noteq> []"
    and mem: "store c = MemoryStore m"
  shows "\<exists>tok. store_get (href e) (store c') url = Some tok \<and> authorization tok = a"
proof -
  from run paid settled auth obtain c1 :: "'s L402Client" and w1 :: world and res ch A where
      f: "calls w1 = calls w @ pre" "pre = A @ [Fetch url init (Inr res)]" "filter is_Pay pre = []"
      "status res = 402" "www_authenticate res = Some wwwAuth"
      "parseChallenge wwwAuth = Some ch" "price_hint res \<le> maxPrice c"
      "spent (budget c1) = spent (budget c) \<or> spent (budget c1) = 0"
      "periodMs (budget c1) = periodMs (budget c)"
      "periodMs (budget c) = None \<longrightarrow> spent (budget c1) = spent (budget c)"
      "store c1 = store c \<or> store c1 = store_delete (href e) (store c) url"
      "r = (case fetch_reply e (Suc (length (calls w1))) url (with_authorization init a) of
              Inl err \<Rightarrow> Inl err
            | Inr rr \<Rightarrow>
                if status rr = 402
                then Inl (L402PaymentFailedError ''Server returned 402 after successful payment'')
                else Inr rr)"
      "c' = c1\<lparr>store := store_set (href e) (store c1) url
                         (new_token ch res payment a (now e (clock_reads w1))),
               budget := fst (record_payment (now e)
                                (case pay_amount payment of Some x \<Rightarrow> x | None \<Rightarrow> price_hint res)
                                (budget c1, clock_reads w1 + 1))\<rparr>"
      "post = [Fetch url (with_authorization init a)
                 (fetch_reply e (Suc (length (calls w1))) url (with_authorization init a))]"
    by (rule l402Fetch_paid_settled)
  let ?tok = "new_token ch res payment a (now e (clock_reads w1))"
  from f(11) mem obtain m' where "store c1 = MemoryStore m'" by auto
  with f(13) have "store_get (href e) (store c') url = Some ?tok" by simp
  moreover have "authorization ?tok = a" by (rule authorization_new_token)
  ultimately show ?thesis by blast
qed

lemma l402Fetch_maxPrice:
  assumes "l402Fetch e url init (c, w) = (r, c', w')"
  shows "maxPrice c' = maxPrice c"
  using assms
  by (auto simp: l402Fetch_def check_token_cache_def request_and_pay_def pay_and_retry_def
      global_fetch_def l402_pay_def Let_def
      split: prod.splits sum.splits option.splits if_splits)

text \<open>A run that finds a credential it may use makes the authorised request its first call.\<close>

lemma l402Fetch_sends_credential:
  assumes cached: "store_get (href e) (store c) url = Some cached"
    and fresh: "case expiresAt cached of None \<Rightarrow> True | Some t \<Rightarrow> now e (clock_reads w) < t"
  shows "take (Suc (length (calls w))) (calls (snd (snd (l402Fetch e url init (c, w))))) =
           calls w @ [Fetch url (with_authorization init (authorization cached))
                        (fetch_reply e (length (calls w)) url
                           (with_authorization init (authorization cached)))]"
proof -
  let ?init = "with_authorization init (authorization cached)"
  let ?rep = "fetch_reply e (length (calls w)) url ?init"
  let ?w1 = "w\<lparr>clock_reads := (case expiresAt cached of None \<Rightarrow> clock_reads w | Some t \<Rightarrow> clock_reads w + 1),
                calls := calls w @ [Fetch url ?init ?rep]\<rparr>"
  have s1: "check_token_cache e url init (c, w) =
      (case ?rep of
           Inl err \<Rightarrow> (Some (Inl err), c, ?w1)
         | Inr res \<Rightarrow>
             if status res \<noteq> 402 then (Some (Inr res), c, ?w1)
             else (None, c\<lparr>store := store_delete (href e) (store c) url\<rparr>, ?w1))"
    using check_token_cache_fresh[OF cached fresh, of init] by (simp add: Let_def)
  show ?thesis
  proof (cases "\<exists>res. ?rep = Inr res \<and> status res = 402")
    case False
    with s1 have "snd (snd (l402Fetch e url init (c, w))) = ?w1"
      by (auto simp: l402Fetch_def split: sum.splits)
    then show ?thesis by simp
  next
    case True
    then obtain res where res: "?rep = Inr res" "status res = 402" by blast
    let ?c1 = "c\<lparr>store := store_delete (href e) (store c) url\<rparr>"
    from s1 res have run: "l402Fetch e url init (c, w) = request_and_pay e url init (?c1, ?w1)"
      by (simp add: l402Fetch_def)
    obtain r c' w' where tail: "request_and_pay e url init (?c1, ?w1) = (r, c', w')"
      by (cases "request_and_pay e url init (?c1, ?w1)") auto
    from request_and_pay_first_call[OF tail]
    have "take (Suc (Suc (length (calls w)))) (calls w') =
            calls w @ [Fetch url ?init ?rep, Fetch url init (fetch_reply e (Suc (length (calls w))) url init)]"
      by simp
    then have "take (Suc (length (calls w))) (take (Suc (Suc (length (calls w)))) (calls w')) =
            calls w @ [Fetch url ?init ?rep]" by simp
    then have "take (Suc (length (calls w))) (calls w') = calls w @ [Fetch url ?init ?rep]"
      by (simp add: min_def)
    with run tail show ?thesis by simp
  qed
qed

subsection \<open>The example runs\<close>

lemmas example_defs = example_url_def example_href_def example_wwwAuth_def challenge_response_def
  ok_response_def settled_payment_def example_env_def new_world_def default_options_def
  still_clock_def clock_from_def paying_env_def stubborn_env_def relenting_env_def open_env_def
  capped_options_def old_token_def caching_client_def new_client_def paid_token_def
  authorized_def example_challenge_def example_sdk_def invalid_result_def
  example_paywall_options_def example_request_def example_402_def

lemmas run_defs = l402Fetch_def check_token_cache_def request_and_pay_def pay_and_retry_def
  global_fetch_def l402_pay_def client_def new_Budget_def check_def record_payment_def maybeReset_def
  price_hint_def new_token_def with_authorization_def headers_set_def normalizeUrl_def
  parseChallenge_def parseAuthorization_def startsWith_def match_here_def
  maxPrice_message_def budget_message_def show_int_def

lemma parse_example_wwwAuth: "parseChallenge example_wwwAuth = Some (''mac'', ''inv'')"
  by (simp add: example_wwwAuth_def parseChallenge_def startsWith_def match_here_def)

lemma new_client_default:
  "new_client (paying_env amt) default_options =
     (\<lparr>store = MemoryStore Map.empty,
       budget = \<lparr>spent = 0, periodStart = 0, totalSats = None, periodMs = None\<rparr>,
       maxPrice = 1000\<rparr>,
      \<lparr>clock_reads = 1, calls = []\<rparr>)"
  "new_client (stubborn_env p) default_options =
     (\<lparr>store = MemoryStore Map.empty,
       budget = \<lparr>spent = 0, periodStart = 0, totalSats = None, periodMs = None\<rparr>,
       maxPrice = 1000\<rparr>,
      \<lparr>clock_reads = 1, calls = []\<rparr>)"
  by (simp_all add: run_defs example_defs)

lemma new_client_capped:
  "new_client (stubborn_env p) capped_options =
     (\<lparr>store = MemoryStore Map.empty,
       budget = \<lparr>spent = 0, periodStart = 0, totalSats = None, periodMs = None\<rparr>,
       maxPrice = 100\<rparr>,
      \<lparr>clock_reads = 1, calls = []\<rparr>)"
  by (simp add: run_defs example_defs)

text \<open>A first request: challenged with price 5, paid, retried, served.\<close>

lemma first_payment_run:
  "l402Fetch (paying_env amt) example_url None (new_client (paying_env amt) default_options) =
     (Inr ok_response,
      \<lparr>store = MemoryStore [example_url \<mapsto> paid_token],
        budget = \<lparr>spent = (case amt of None \<Rightarrow> 5 | Some x \<Rightarrow> x), periodStart = 0, totalSats = None, periodMs = None\<rparr>,
        maxPrice = 1000\<rparr>,
      \<lparr>clock_reads = 2,
        calls = [Fetch example_url None (Inr (challenge_response 5)),
                 Pay example_wwwAuth (Inr (settled_payment amt)),
                 Fetch example_url (authorized ''L402 mac:pre'') (Inr ok_response)]\<rparr>)"
  by (simp add: new_client_default) (simp add: run_defs example_defs Let_def split: option.splits)

text \<open>The same request again, on the state the first one left.\<close>

lemma second_request_run:
  "l402Fetch (paying_env (Some 5)) example_url None
     (snd (l402Fetch (paying_env (Some 5)) example_url None (new_client (paying_env (Some 5)) default_options))) =
     (Inr ok_response,
      \<lparr>store = MemoryStore [example_url \<mapsto> paid_token],
        budget = \<lparr>spent = 5, periodStart = 0, totalSats = None, periodMs = None\<rparr>,
        maxPrice = 1000\<rparr>,
      \<lparr>clock_reads = 2,
        calls = [Fetch example_url None (Inr (challenge_response 5)),
                 Pay example_wwwAuth (Inr (settled_payment (Some 5))),
                 Fetch example_url (authorized ''L402 mac:pre'') (Inr ok_response),
                 Fetch example_url (authorized ''L402 mac:pre'') (Inr ok_response)]\<rparr>)"
  by (simp add: first_payment_run) (simp add: run_defs example_defs Let_def)


text \<open>A price of 101 against a maximum of 100, and prices of 1001 and 1000 against the default.\<close>

lemma over_price_run:
  "l402Fetch (stubborn_env 101) example_url None (new_client (stubborn_env 101) capped_options) =
     (Inl (L402BudgetExceededError ''Price 101 sats exceeds maxPrice 100''),
      \<lparr>store = MemoryStore Map.empty,
        budget = \<lparr>spent = 0, periodStart = 0, totalSats = None, periodMs = None\<rparr>,
        maxPrice = 100\<rparr>,
      \<lparr>clock_reads = 1, calls = [Fetch example_url None (Inr (challenge_response 101))]\<rparr>)"
  by (simp add: new_client_capped) (simp add: run_defs example_defs Let_def)

lemma default_over_run:
  "l402Fetch (stubborn_env 1001) example_url None (new_client (stubborn_env 1001) default_options) =
     (Inl (L402BudgetExceededError ''Price 1001 sats exceeds maxPrice 1000''),
      \<lparr>store = MemoryStore Map.empty,
        budget = \<lparr>spent = 0, periodStart = 0, totalSats = None, periodMs = None\<rparr>,
        maxPrice = 1000\<rparr>,
      \<lparr>clock_reads = 1, calls = [Fetch example_url None (Inr (challenge_response 1001))]\<rparr>)"
  by (simp add: new_client_default) (simp add: run_defs example_defs Let_def)

lemma default_under_run:
  "l402Fetch (stubborn_env 1000) example_url None (new_client (stubborn_env 1000) default_options) =
     (Inl (L402PaymentFailedError ''Server returned 402 after successful payment''),
      \<lparr>store = MemoryStore [example_url \<mapsto> paid_token],
        budget = \<lparr>spent = 1000, periodStart = 0, totalSats = None, periodMs = None\<rparr>,
        maxPrice = 1000\<rparr>,
      \<lparr>clock_reads = 2,
        calls = [Fetch example_url None (Inr (challenge_response 1000)),
                 Pay example_wwwAuth (Inr (settled_payment (Some 1000))),
                 Fetch example_url (authorized ''L402 mac:pre'') (Inr (challenge_response 1000))]\<rparr>)"
  by (simp add: new_client_default) (simp add: run_defs example_defs Let_def)





subsection \<open>The claims about \<open>l402Fetch\<close>\<close>

text \<open>
  C1. When the store holds a credential for the URL and its expiry, if it has one, has
  not passed, \<open>l402Fetch\<close> sends the request with that credential's authorization
  value as the \<open>authorization\<close> header; when the response's status is not 402 it
  returns that response, having made this one call and none to the payer, and leaves
  the client as it was. In particular: after a run in which the payer settled and
  returned an authorization, a client with the in-memory store holds a credential
  with that authorization under the URL, and a second request for the URL, made
  before the credential expires and answered with a status other than 402, returns
  that answer after the one authorised request, with no further call to the payer.
\<close>

theorem C1_cached_credential:
  "(store_get (href e) (store c) url = Some cached \<and>
    (case expiresAt cached of None \<Rightarrow> True | Some t \<Rightarrow> now e (clock_reads w) < t) \<longrightarrow>
      request_header ''authorization'' (with_authorization init (authorization cached)) =
        Some (authorization cached) \<and>
      take (Suc (length (calls w))) (calls (snd (snd (l402Fetch e url init (c, w))))) =
        calls w @ [Fetch url (with_authorization init (authorization cached))
                     (fetch_reply e (length (calls w)) url
                        (with_authorization init (authorization cached)))] \<and>
      (fetch_reply e (length (calls w)) url (with_authorization init (authorization cached)) = Inr res \<and>
       status res \<noteq> 402 \<longrightarrow>
         l402Fetch e url init (c, w) =
           (Inr res, c,
            w\<lparr>clock_reads := (case expiresAt cached of None \<Rightarrow> clock_reads w | Some t \<Rightarrow> clock_reads w + 1),
              calls := calls w @ [Fetch url (with_authorization init (authorization cached)) (Inr res)]\<rparr>)))
   \<and>
   (l402Fetch e url init (c, w) = (r1, c1, w1) \<and>
    calls w1 = calls w @ pre @ Pay wwwAuth (Inr payment) # post \<and>
    pay_status payment \<noteq> ''failed'' \<and> pay_authorization payment = Some a \<and> a \<noteq> [] \<and>
    store c = MemoryStore m \<longrightarrow>
      (\<exists>tok. store_get (href e) (store c1) url = Some tok \<and> authorization tok = a \<and>
         (\<forall>init2 res2.
            (case expiresAt tok of None \<Rightarrow> True | Some t \<Rightarrow> now e (clock_reads w1) < t) \<and>
            fetch_reply e (length (calls w1)) url (with_authorization init2 a) = Inr res2 \<and>
            status res2 \<noteq> 402 \<longrightarrow>
              fst (l402Fetch e url init2 (c1, w1)) = Inr res2 \<and>
              calls (snd (snd (l402Fetch e url init2 (c1, w1)))) =
                calls w1 @ [Fetch url (with_authorization init2 a) (Inr res2)])))"
proof (intro conjI impI)
  show "request_header ''authorization'' (with_authorization init (authorization cached)) =
        Some (authorization cached)"
    by (rule request_header_with_authorization)
next
  assume h: "store_get (href e) (store c) url = Some cached \<and>
    (case expiresAt cached of None \<Rightarrow> True | Some t \<Rightarrow> now e (clock_reads w) < t)"
  then show "take (Suc (length (calls w))) (calls (snd (snd (l402Fetch e url init (c, w))))) =
        calls w @ [Fetch url (with_authorization init (authorization cached))
                     (fetch_reply e (length (calls w)) url
                        (with_authorization init (authorization cached)))]"
    by (intro l402Fetch_sends_credential) simp_all
  assume "fetch_reply e (length (calls w)) url (with_authorization init (authorization cached)) = Inr res \<and>
       status res \<noteq> 402"
  with h show "l402Fetch e url init (c, w) =
        (Inr res, c,
         w\<lparr>clock_reads := (case expiresAt cached of None \<Rightarrow> clock_reads w | Some t \<Rightarrow> clock_reads w + 1),
           calls := calls w @ [Fetch url (with_authorization init (authorization cached)) (Inr res)]\<rparr>)"
    by (intro cache_hit) simp_all
next
  assume h: "l402Fetch e url init (c, w) = (r1, c1, w1) \<and>
    calls w1 = calls w @ pre @ Pay wwwAuth (Inr payment) # post \<and>
    pay_status payment \<noteq> ''failed'' \<and> pay_authorization payment = Some a \<and> a \<noteq> [] \<and>
    store c = MemoryStore m"
  then obtain tok where tok: "store_get (href e) (store c1) url = Some tok" "authorization tok = a"
    using token_after_payment[of e url init c w r1 c1 w1 pre wwwAuth payment post a m] by blast
  have "\<forall>init2 res2.
            (case expiresAt tok of None \<Rightarrow> True | Some t \<Rightarrow> now e (clock_reads w1) < t) \<and>
            fetch_reply e (length (calls w1)) url (with_authorization init2 a) = Inr res2 \<and>
            status res2 \<noteq> 402 \<longrightarrow>
              fst (l402Fetch e url init2 (c1, w1)) = Inr res2 \<and>
              calls (snd (snd (l402Fetch e url init2 (c1, w1)))) =
                calls w1 @ [Fetch url (with_authorization init2 a) (Inr res2)]"
  proof (intro allI impI)
    fix init2 res2
    assume g: "(case expiresAt tok of None \<Rightarrow> True | Some t \<Rightarrow> now e (clock_reads w1) < t) \<and>
            fetch_reply e (length (calls w1)) url (with_authorization init2 a) = Inr res2 \<and>
            status res2 \<noteq> 402"
    with tok have "l402Fetch e url init2 (c1, w1) =
     (Inr res2, c1,
      w1\<lparr>clock_reads := (case expiresAt tok of None \<Rightarrow> clock_reads w1 | Some t \<Rightarrow> clock_reads w1 + 1),
        calls := calls w1 @ [Fetch url (with_authorization init2 (authorization tok)) (Inr res2)]\<rparr>)"
      by (intro cache_hit) simp_all
    with tok(2) show "fst (l402Fetch e url init2 (c1, w1)) = Inr res2 \<and>
              calls (snd (snd (l402Fetch e url init2 (c1, w1)))) =
                calls w1 @ [Fetch url (with_authorization init2 a) (Inr res2)]"
      by simp
  qed
  with tok show "\<exists>tok. store_get (href e) (store c1) url = Some tok \<and> authorization tok = a \<and>
         (\<forall>init2 res2.
            (case expiresAt tok of None \<Rightarrow> True | Some t \<Rightarrow> now e (clock_reads w1) < t) \<and>
            fetch_reply e (length (calls w1)) url (with_authorization init2 a) = Inr res2 \<and>
            status res2 \<noteq> 402 \<longrightarrow>
              fst (l402Fetch e url init2 (c1, w1)) = Inr res2 \<and>
              calls (snd (snd (l402Fetch e url init2 (c1, w1)))) =
                calls w1 @ [Fetch url (with_authorization init2 a) (Inr res2)])"
    by blast
qed

text \<open>
  The witness: the first request pays once; the second, on the state the first left,
  is served from the cache, and the payer's one call remains the only one.
\<close>

theorem C1_cached_credential_witness:
  "fst (l402Fetch (paying_env (Some 5)) example_url None (new_client (paying_env (Some 5)) default_options)) =
     Inr ok_response \<and>
   filter is_Pay (calls (snd (snd (l402Fetch (paying_env (Some 5)) example_url None
     (new_client (paying_env (Some 5)) default_options))))) =
     [Pay example_wwwAuth (Inr (settled_payment (Some 5)))] \<and>
   fst (l402Fetch (paying_env (Some 5)) example_url None
     (snd (l402Fetch (paying_env (Some 5)) example_url None (new_client (paying_env (Some 5)) default_options)))) =
     Inr ok_response \<and>
   filter is_Pay (calls (snd (snd (l402Fetch (paying_env (Some 5)) example_url None
     (snd (l402Fetch (paying_env (Some 5)) example_url None (new_client (paying_env (Some 5)) default_options))))))) =
     [Pay example_wwwAuth (Inr (settled_payment (Some 5)))]"
proof -
  let ?e = "paying_env (Some 5)"
  let ?cw = "new_client ?e default_options"
  let ?first = "l402Fetch ?e example_url None ?cw"
  let ?c1 = "fst (snd ?first)"
  let ?w1 = "snd (snd ?first)"
  note claim1 = C1_cached_credential[where e = ?e and c = ?c1 and w = ?w1 and url = example_url
      and cached = paid_token and init = None and res = ok_response]
  note claim2 = C1_cached_credential[where e = ?e and c = "fst ?cw" and w = "snd ?cw" and url = example_url
      and init = None and ?r1.0 = "fst ?first" and ?c1.0 = ?c1 and ?w1.0 = ?w1
      and pre = "[Fetch example_url None (Inr (challenge_response 5))]"
      and wwwAuth = example_wwwAuth and payment = "settled_payment (Some 5)"
      and post = "[Fetch example_url (authorized ''L402 mac:pre'') (Inr ok_response)]"
      and a = "''L402 mac:pre''" and m = Map.empty]
  have h1: "store_get (href ?e) (store ?c1) example_url = Some paid_token \<and>
    (case expiresAt paid_token of None \<Rightarrow> True | Some t \<Rightarrow> now ?e (clock_reads ?w1) < t)"
    "fetch_reply ?e (length (calls ?w1)) example_url (with_authorization None (authorization paid_token)) = Inr ok_response \<and>
    status ok_response \<noteq> 402"
    by (simp_all add: first_payment_run) (simp_all add: run_defs example_defs)
  have h2: "l402Fetch ?e example_url None (fst ?cw, snd ?cw) = (fst ?first, ?c1, ?w1) \<and>
    calls ?w1 = calls (snd ?cw) @ [Fetch example_url None (Inr (challenge_response 5))] @
       Pay example_wwwAuth (Inr (settled_payment (Some 5))) #
       [Fetch example_url (authorized ''L402 mac:pre'') (Inr ok_response)] \<and>
    pay_status (settled_payment (Some 5)) \<noteq> ''failed'' \<and>
    pay_authorization (settled_payment (Some 5)) = Some ''L402 mac:pre'' \<and> ''L402 mac:pre'' \<noteq> [] \<and>
    store (fst ?cw) = MemoryStore Map.empty"
    by (simp add: first_payment_run) (simp add: new_client_default settled_payment_def)
  from claim1 h1 have r1: "l402Fetch ?e example_url None (?c1, ?w1) =
        (Inr ok_response, ?c1,
         ?w1\<lparr>clock_reads := (case expiresAt paid_token of None \<Rightarrow> clock_reads ?w1 | Some t \<Rightarrow> clock_reads ?w1 + 1),
           calls := calls ?w1 @ [Fetch example_url (with_authorization None (authorization paid_token)) (Inr ok_response)]\<rparr>)"
    by blast
  from claim2 h2 have r2: "\<exists>tok. store_get (href ?e) (store ?c1) example_url = Some tok \<and>
      authorization tok = ''L402 mac:pre''" by blast
  from r1 r2 show ?thesis
    by (simp add: first_payment_run second_request_run)
qed



text \<open>
  C3. When step 1 falls through and the plain request is answered with status 402, a
  challenge header that parses, and a price hint above \<open>maxPrice\<close>, \<open>l402Fetch\<close>
  fails with \<open>L402BudgetExceededError\<close> (its own subclass, neither the base
  \<open>L402Error\<close> of a protocol failure nor \<open>L402PaymentFailedError\<close>), whose message
  carries the price and the maximum. The plain request is its last call: the payer is
  not called, and the budget is the one the run began with.
\<close>

theorem C3_over_maxPrice:
  assumes step1: "check_token_cache e url init (c, w) = (None, c1, w1)"
    and reply: "fetch_reply e (length (calls w1)) url init = Inr res"
    and challenge: "status res = 402" "www_authenticate res = Some wwwAuth" "wwwAuth \<noteq> []"
      "parseChallenge wwwAuth = Some ch"
    and over: "price_hint res > maxPrice c"
  shows "l402Fetch e url init (c, w) =
           (Inl (L402BudgetExceededError
                   (''Price '' @ show_int (price_hint res) @ '' sats exceeds maxPrice '' @
                    show_int (maxPrice c))),
            c1, w1\<lparr>calls := calls w1 @ [Fetch url init (Inr res)]\<rparr>) \<and>
         budget c1 = budget c \<and>
         filter is_Pay (calls w1 @ [Fetch url init (Inr res)]) = filter is_Pay (calls w)"
proof -
  from check_token_cache_facts[OF step1] obtain A where
    f: "budget c1 = budget c" "maxPrice c1 = maxPrice c" "calls w1 = calls w @ A" "filter is_Pay A = []"
    by blast
  from over f(2) have "price_hint res > maxPrice c1" by simp
  with request_and_pay_challenged[OF reply challenge, of c1] step1 f(2)
  have "l402Fetch e url init (c, w) =
           (Inl (L402BudgetExceededError (maxPrice_message (price_hint res) (maxPrice c))),
            c1, w1\<lparr>calls := calls w1 @ [Fetch url init (Inr res)]\<rparr>)"
    by (simp add: l402Fetch_def)
  with f show ?thesis by (simp add: maxPrice_message_def)
qed

text \<open>The witness: a price of 101 against a maximum of 100.\<close>

theorem C3_over_maxPrice_witness:
  "l402Fetch (stubborn_env 101) example_url None (new_client (stubborn_env 101) capped_options) =
     (Inl (L402BudgetExceededError ''Price 101 sats exceeds maxPrice 100''),
      fst (new_client (stubborn_env 101) capped_options),
      (snd (new_client (stubborn_env 101) capped_options))
        \<lparr>calls := [Fetch example_url None (Inr (challenge_response 101))]\<rparr>) \<and>
   spent (budget (fst (new_client (stubborn_env 101) capped_options))) = 0"
proof -
  let ?e = "stubborn_env 101"
  let ?cw = "new_client ?e capped_options"
  have step1: "check_token_cache ?e example_url None (fst ?cw, snd ?cw) = (None, fst ?cw, snd ?cw)"
    by (simp add: new_client_capped check_token_cache_def normalizeUrl_def)
  have reply: "fetch_reply ?e (length (calls (snd ?cw))) example_url None = Inr (challenge_response 101)"
    by (simp add: new_client_capped) (simp add: example_defs)
  have ch: "status (challenge_response 101) = 402"
    "www_authenticate (challenge_response 101) = Some example_wwwAuth" "example_wwwAuth \<noteq> []"
    "parseChallenge example_wwwAuth = Some (''mac'', ''inv'')"
    by (simp_all add: challenge_response_def parse_example_wwwAuth) (simp add: example_wwwAuth_def)
  have over: "price_hint (challenge_response 101) > maxPrice (fst ?cw)"
    by (simp add: new_client_capped price_hint_def challenge_response_def)
  from C3_over_maxPrice[OF step1 reply ch over] show ?thesis
    by (simp add: new_client_capped show_int_def price_hint_def challenge_response_def)
qed








text \<open>
  C10. Without the \<open>maxPrice\<close> option the client's maximum is 1000, and no run
  changes it. For a client with that maximum, when step 1 falls through and the plain
  request is answered by a challenge that parses: a price hint of 1001 or more makes
  the run fail with \<open>L402BudgetExceededError\<close> without a call to the payer; a price
  hint of at most 1000 passes on to the budget check and, when that passes, to the
  payment, so that without a total budget the payer is called.
\<close>

theorem C10_default_maxPrice:
  "(opt_maxPrice options = None \<longrightarrow> maxPrice (fst (client e options w0)) = 1000) \<and>
   (l402Fetch e url init (c, w) = (r, c', w') \<longrightarrow> maxPrice c' = maxPrice c) \<and>
   (maxPrice c = 1000 \<and>
    check_token_cache e url init (c, w) = (None, c1, w1) \<and>
    fetch_reply e (length (calls w1)) url init = Inr res \<and> status res = 402 \<and>
    www_authenticate res = Some wwwAuth \<and> wwwAuth \<noteq> [] \<and> parseChallenge wwwAuth = Some ch \<longrightarrow>
      (1001 \<le> price_hint res \<longrightarrow>
         l402Fetch e url init (c, w) =
           (Inl (L402BudgetExceededError
                   (''Price '' @ show_int (price_hint res) @ '' sats exceeds maxPrice 1000'')),
            c1, w1\<lparr>calls := calls w1 @ [Fetch url init (Inr res)]\<rparr>) \<and>
         filter is_Pay (calls w1 @ [Fetch url init (Inr res)]) = filter is_Pay (calls w)) \<and>
      (price_hint res \<le> 1000 \<longrightarrow>
         l402Fetch e url init (c, w) =
           (case check (now e) (price_hint res) (budget c, clock_reads w1) of
              (Inl err, b2, t2) \<Rightarrow>
                (Inl err, c1\<lparr>budget := b2\<rparr>,
                 w1\<lparr>calls := calls w1 @ [Fetch url init (Inr res)], clock_reads := t2\<rparr>)
            | (Inr _, b2, t2) \<Rightarrow>
                pay_and_retry e url init wwwAuth ch res (price_hint res)
                  (c1\<lparr>budget := b2\<rparr>,
                   w1\<lparr>calls := calls w1 @ [Fetch url init (Inr res)], clock_reads := t2\<rparr>)) \<and>
         (totalSats (budget c) = None \<longrightarrow>
            Pay wwwAuth (pay_reply e (Suc (length (calls w1))) wwwAuth)
              \<in> set (calls (snd (snd (l402Fetch e url init (c, w))))))))"
proof (intro conjI impI)
  assume "opt_maxPrice options = None"
  then show "maxPrice (fst (client e options w0)) = 1000"
    by (simp add: client_def new_Budget_def)
next
  assume "l402Fetch e url init (c, w) = (r, c', w')"
  then show "maxPrice c' = maxPrice c" by (rule l402Fetch_maxPrice)
next
  assume h: "maxPrice c = 1000 \<and>
    check_token_cache e url init (c, w) = (None, c1, w1) \<and>
    fetch_reply e (length (calls w1)) url init = Inr res \<and> status res = 402 \<and>
    www_authenticate res = Some wwwAuth \<and> wwwAuth \<noteq> [] \<and> parseChallenge wwwAuth = Some ch"
    and over: "1001 \<le> price_hint res"
  from h have step1: "check_token_cache e url init (c, w) = (None, c1, w1)" by simp
  from check_token_cache_facts[OF step1] obtain A where
    f: "budget c1 = budget c" "maxPrice c1 = maxPrice c" "calls w1 = calls w @ A" "filter is_Pay A = []"
    by blast
  from h have reply: "fetch_reply e (length (calls w1)) url init = Inr res"
    and ch: "status res = 402" "www_authenticate res = Some wwwAuth" "wwwAuth \<noteq> []"
      "parseChallenge wwwAuth = Some ch" by simp_all
  from h over f(2) have "price_hint res > maxPrice c1" "maxPrice c1 = 1000" by simp_all
  with request_and_pay_challenged[OF reply ch, of c1] step1
  show "l402Fetch e url init (c, w) =
           (Inl (L402BudgetExceededError
                   (''Price '' @ show_int (price_hint res) @ '' sats exceeds maxPrice 1000'')),
            c1, w1\<lparr>calls := calls w1 @ [Fetch url init (Inr res)]\<rparr>)"
    by (simp add: l402Fetch_def maxPrice_message_def show_int_def)
  from f show "filter is_Pay (calls w1 @ [Fetch url init (Inr res)]) = filter is_Pay (calls w)"
    by simp
next
  assume h: "maxPrice c = 1000 \<and>
    check_token_cache e url init (c, w) = (None, c1, w1) \<and>
    fetch_reply e (length (calls w1)) url init = Inr res \<and> status res = 402 \<and>
    www_authenticate res = Some wwwAuth \<and> wwwAuth \<noteq> [] \<and> parseChallenge wwwAuth = Some ch"
    and under: "price_hint res \<le> 1000"
  from h have step1: "check_token_cache e url init (c, w) = (None, c1, w1)" by simp
  from check_token_cache_facts[OF step1] have
    f: "budget c1 = budget c" "maxPrice c1 = maxPrice c" by simp_all
  from h have reply: "fetch_reply e (length (calls w1)) url init = Inr res"
    and ch: "status res = 402" "www_authenticate res = Some wwwAuth" "wwwAuth \<noteq> []"
      "parseChallenge wwwAuth = Some ch" by simp_all
  from h under f(2) have "\<not> price_hint res > maxPrice c1" by simp
  with request_and_pay_challenged[OF reply ch, of c1] step1 f(1)
  show run: "l402Fetch e url init (c, w) =
           (case check (now e) (price_hint res) (budget c, clock_reads w1) of
              (Inl err, b2, t2) \<Rightarrow>
                (Inl err, c1\<lparr>budget := b2\<rparr>,
                 w1\<lparr>calls := calls w1 @ [Fetch url init (Inr res)], clock_reads := t2\<rparr>)
            | (Inr _, b2, t2) \<Rightarrow>
                pay_and_retry e url init wwwAuth ch res (price_hint res)
                  (c1\<lparr>budget := b2\<rparr>,
                   w1\<lparr>calls := calls w1 @ [Fetch url init (Inr res)], clock_reads := t2\<rparr>))"
    by (simp add: l402Fetch_def)
  assume nolimit: "totalSats (budget c) = None"
  let ?c2 = "c1\<lparr>budget := budget c\<rparr>"
  let ?w2 = "w1\<lparr>calls := calls w1 @ [Fetch url init (Inr res)], clock_reads := clock_reads w1\<rparr>"
  from nolimit have "check (now e) (price_hint res) (budget c, clock_reads w1) = (Inr (), budget c, clock_reads w1)"
    by (simp add: check_def)
  with run have run': "l402Fetch e url init (c, w) =
      pay_and_retry e url init wwwAuth ch res (price_hint res) (?c2, ?w2)" by simp
  obtain r2 c2 w2 where par: "pay_and_retry e url init wwwAuth ch res (price_hint res) (?c2, ?w2) = (r2, c2, w2)"
    by (cases "pay_and_retry e url init wwwAuth ch res (price_hint res) (?c2, ?w2)") auto
  from pay_and_retry_calls[OF par] obtain B where
    "calls w2 = calls ?w2 @ Pay wwwAuth (pay_reply e (length (calls ?w2)) wwwAuth) # B" by blast
  then have "Pay wwwAuth (pay_reply e (Suc (length (calls w1))) wwwAuth) \<in> set (calls w2)" by simp
  with run' par show "Pay wwwAuth (pay_reply e (Suc (length (calls w1))) wwwAuth)
              \<in> set (calls (snd (snd (l402Fetch e url init (c, w)))))" by simp
qed

text \<open>The witness: the default options, and price hints of 1001 and of 1000.\<close>

theorem C10_default_maxPrice_witness:
  "opt_maxPrice default_options = None \<and>
   maxPrice (fst (new_client (stubborn_env 1001) default_options)) = 1000 \<and>
   fst (l402Fetch (stubborn_env 1001) example_url None (new_client (stubborn_env 1001) default_options)) =
     Inl (L402BudgetExceededError ''Price 1001 sats exceeds maxPrice 1000'') \<and>
   filter is_Pay (calls (snd (snd (l402Fetch (stubborn_env 1001) example_url None
     (new_client (stubborn_env 1001) default_options))))) = [] \<and>
   Pay example_wwwAuth (Inr (settled_payment (Some 1000))) \<in>
     set (calls (snd (snd (l402Fetch (stubborn_env 1000) example_url None
       (new_client (stubborn_env 1000) default_options)))))"
proof -
  have o: "opt_maxPrice default_options = None" by (simp add: default_options_def)
  have step1: "check_token_cache (stubborn_env p) example_url None
      (fst (new_client (stubborn_env p) default_options), snd (new_client (stubborn_env p) default_options)) =
      (None, fst (new_client (stubborn_env p) default_options), snd (new_client (stubborn_env p) default_options))" for p
    by (simp add: new_client_default check_token_cache_def normalizeUrl_def)
  have h: "maxPrice (fst (new_client (stubborn_env p) default_options)) = 1000 \<and>
    check_token_cache (stubborn_env p) example_url None
      (fst (new_client (stubborn_env p) default_options), snd (new_client (stubborn_env p) default_options)) =
      (None, fst (new_client (stubborn_env p) default_options), snd (new_client (stubborn_env p) default_options)) \<and>
    fetch_reply (stubborn_env p) (length (calls (snd (new_client (stubborn_env p) default_options)))) example_url None =
      Inr (challenge_response p) \<and> status (challenge_response p) = 402 \<and>
    www_authenticate (challenge_response p) = Some example_wwwAuth \<and> example_wwwAuth \<noteq> [] \<and>
    parseChallenge example_wwwAuth = Some (''mac'', ''inv'')" for p
    using step1[of p]
    by (simp add: parse_example_wwwAuth new_client_default) (simp add: example_defs)
  note t0 = C10_default_maxPrice[where options = default_options and e = "stubborn_env 1001" and ?w0.0 = new_world]
  note t1 = C10_default_maxPrice[where e = "stubborn_env 1001" and url = example_url and init = None
      and c = "fst (new_client (stubborn_env 1001) default_options)"
      and w = "snd (new_client (stubborn_env 1001) default_options)"
      and ?c1.0 = "fst (new_client (stubborn_env 1001) default_options)"
      and ?w1.0 = "snd (new_client (stubborn_env 1001) default_options)"
      and res = "challenge_response 1001" and wwwAuth = example_wwwAuth and ch = "(''mac'', ''inv'')"]
  note t2 = C10_default_maxPrice[where e = "stubborn_env 1000" and url = example_url and init = None
      and c = "fst (new_client (stubborn_env 1000) default_options)"
      and w = "snd (new_client (stubborn_env 1000) default_options)"
      and ?c1.0 = "fst (new_client (stubborn_env 1000) default_options)"
      and ?w1.0 = "snd (new_client (stubborn_env 1000) default_options)"
      and res = "challenge_response 1000" and wwwAuth = example_wwwAuth and ch = "(''mac'', ''inv'')"]
  have p1: "1001 \<le> price_hint (challenge_response 1001)" "price_hint (challenge_response 1000) \<le> 1000"
    by (simp_all add: price_hint_def challenge_response_def)
  have nolimit: "totalSats (budget (fst (new_client (stubborn_env 1000) default_options))) = None"
    by (simp add: new_client_default)
  from t0 o have a0: "maxPrice (fst (client (stubborn_env 1001) default_options new_world)) = 1000" by blast
  from t1 h[of 1001] p1(1) have a1:
    "filter is_Pay (calls (snd (new_client (stubborn_env 1001) default_options)) @
        [Fetch example_url None (Inr (challenge_response 1001))]) =
     filter is_Pay (calls (snd (new_client (stubborn_env 1001) default_options)))"
    by blast
  from t2 h[of 1000] p1(2) nolimit have a2:
    "Pay example_wwwAuth (pay_reply (stubborn_env 1000)
        (Suc (length (calls (snd (new_client (stubborn_env 1000) default_options))))) example_wwwAuth)
       \<in> set (calls (snd (snd (l402Fetch (stubborn_env 1000) example_url None
            (fst (new_client (stubborn_env 1000) default_options),
             snd (new_client (stubborn_env 1000) default_options))))))"
    by blast
  from o a0 a1 a2 show ?thesis
    by (simp add: default_over_run default_under_run) (simp add: new_client_default)
qed

section \<open>Properties of the paywall middleware\<close>

text \<open>
  C8. For a request whose \<open>authorization\<close> header has the \<open>L402 \<close> prefix, when
  \<open>verify\<close> throws or returns a result that is not valid, the middleware does what it
  does for a request that needs a challenge, and nothing in the outcome depends on
  how the verification failed: the price is resolved, the challenge is minted, and
  once it is minted the response has status 402 and carries it. When the price does
  not depend on the header, the outcome is that of the same request without the
  header. The protected handler is not invoked.
\<close>

theorem C8_verification_failure:
  assumes header: "req_authorization req = Some authHeader" "startsWith authHeader ''L402 ''"
    and failed: "(\<exists>err. verify ln authHeader = Inl err) \<or>
                 (\<exists>result. verify ln authHeader = Inr result \<and> \<not> valid result)"
  shows "paywall ln options req =
           (case resolvePrice (paywall_price options) req of
              Inl err \<Rightarrow> Unhandled err
            | Inr p \<Rightarrow>
                (case createChallenge ln
                        \<lparr>amount = p, param_description = description options,
                         param_expirySeconds = expirySeconds options,
                         param_caveats = paywall_caveats options\<rparr> of
                   Inl err \<Rightarrow> NextError err
                 | Inr challenge \<Rightarrow>
                     Respond 402 (wwwAuthenticate challenge)
                       \<lparr>json_type = ''payment_required'',
                        json_title = ''Payment Required'',
                        json_detail = ''Pay the included Lightning invoice to access this resource.'',
                        json_invoice = challenge_invoice challenge,
                        json_macaroon = challenge_macaroon challenge,
                        json_price = p,
                        json_unit = ''satoshis'',
                        json_description = description options\<rparr>)) \<and>
         (resolvePrice (paywall_price options) (req\<lparr>req_authorization := None\<rparr>) =
            resolvePrice (paywall_price options) req \<longrightarrow>
          paywall ln options req = paywall ln options (req\<lparr>req_authorization := None\<rparr>)) \<and>
         (\<forall>marked. paywall ln options req \<noteq> Next marked)"
  using assms
  by (auto simp: paywall_def startsWith_def split: sum.splits)

text \<open>
  The witness: a verifier that throws and one that returns an invalid result both
  lead to the 402 response that the request without a header gets.
\<close>

theorem C8_verification_failure_witness:
  "paywall (example_sdk (Inl (Rejected ''network error''))) example_paywall_options
     (example_request (Some ''L402 mac:pre'')) = example_402 \<and>
   paywall (example_sdk (Inr invalid_result)) example_paywall_options
     (example_request (Some ''L402 mac:pre'')) = example_402 \<and>
   paywall (example_sdk (Inr invalid_result)) example_paywall_options
     (example_request None) = example_402"
proof -
  have header: "req_authorization (example_request (Some ''L402 mac:pre'')) = Some ''L402 mac:pre''"
    "startsWith ''L402 mac:pre'' ''L402 ''"
    by (simp_all add: example_request_def startsWith_def)
  have failed1: "(\<exists>err. verify (example_sdk (Inl (Rejected ''network error''))) ''L402 mac:pre'' = Inl err) \<or>
       (\<exists>result. verify (example_sdk (Inl (Rejected ''network error''))) ''L402 mac:pre'' = Inr result \<and> \<not> valid result)"
    by (simp add: example_sdk_def)
  have failed2: "(\<exists>err. verify (example_sdk (Inr invalid_result)) ''L402 mac:pre'' = Inl err) \<or>
       (\<exists>result. verify (example_sdk (Inr invalid_result)) ''L402 mac:pre'' = Inr result \<and> \<not> valid result)"
    by (simp add: example_sdk_def invalid_result_def)
  from C8_verification_failure[OF header failed1, of example_paywall_options]
    C8_verification_failure[OF header failed2, of example_paywall_options]
  show ?thesis
    by (simp add: example_defs paywall_def)
qed

section \<open>The earlier revision of \<open>l402Fetch\<close>\<close>

text \<open>
  Where the earlier revision departs from the later one, on the example runs: a price
  above the maximum throws the base class \<open>L402Error\<close>; the price hint is recorded
  though the payer reports another amount; and a retry answered with status 402 is
  returned as the result of the call.
\<close>

lemmas earlier_defs = l402Fetch_earlier_def request_and_pay_earlier_def pay_and_retry_earlier_def

lemma l402Fetch_earlier_over_price:
  "fst (l402Fetch_earlier (stubborn_env 101) example_url None
          (new_client (stubborn_env 101) capped_options)) =
     Inl (L402Error ''Price 101 sats exceeds maxPrice 100'')"
  by (simp add: new_client_capped) (simp add: earlier_defs run_defs example_defs Let_def)

lemma l402Fetch_earlier_records_hint:
  "spent (budget (fst (snd (l402Fetch_earlier (paying_env (Some 7)) example_url None
          (new_client (paying_env (Some 7)) default_options))))) = 5"
  by (simp add: new_client_default) (simp add: earlier_defs run_defs example_defs Let_def)

lemma l402Fetch_earlier_returns_402:
  "fst (l402Fetch_earlier (stubborn_env 10) example_url None
          (new_client (stubborn_env 10) default_options)) = Inr (challenge_response 10)"
  by (simp add: new_client_default) (simp add: earlier_defs run_defs example_defs Let_def)

end
